theory Spec2Isabelle
  imports Main
begin

section \<open>Strings of the generator\<close>

text \<open>
  The generator is JavaScript. Its strings are modelled as \<^typ>\<open>string\<close>, one
  \<^typ>\<open>char\<close> for one code unit. The white space class below is JavaScript's on
  the code units below 256; the case mappings are JavaScript's on the ASCII range only, so
  the theorems that speak about the case of every name carry the hypothesis that the name
  is ASCII.
\<close>

definition is_ascii :: "char \<Rightarrow> bool" where
  "is_ascii c \<longleftrightarrow> (of_char c :: nat) < 128"

definition is_upper :: "char \<Rightarrow> bool" where
  "is_upper c \<longleftrightarrow> (65::nat) \<le> of_char c \<and> (of_char c :: nat) \<le> 90"

definition is_lower :: "char \<Rightarrow> bool" where
  "is_lower c \<longleftrightarrow> (97::nat) \<le> of_char c \<and> (of_char c :: nat) \<le> 122"

text \<open>White space as \<^verbatim>\<open>String.prototype.trim\<close> and the regular expression class
  \<^verbatim>\<open>\s\<close> see it among the code units below 256: tab, line feed, vertical tab, form feed, carriage
  return, space and the no-break space.\<close>

definition is_ws :: "char \<Rightarrow> bool" where
  "is_ws c \<longleftrightarrow> (of_char c :: nat) \<in> {9, 10, 11, 12, 13, 32, 160}"

text \<open>One character of the class \<^verbatim>\<open>[-\s_]\<close>.\<close>

definition is_sep :: "char \<Rightarrow> bool" where
  "is_sep c \<longleftrightarrow> (of_char c :: nat) = 45 \<or> (of_char c :: nat) = 95 \<or> is_ws c"

definition lower_char :: "char \<Rightarrow> char" where
  "lower_char c = (if is_upper c then char_of (of_char c + (32::nat)) else c)"

definition upper_char :: "char \<Rightarrow> char" where
  "upper_char c = (if is_lower c then char_of (of_char c - (32::nat)) else c)"

definition toLowerCase :: "string \<Rightarrow> string" where
  "toLowerCase s = map lower_char s"

definition toUpperCase :: "string \<Rightarrow> string" where
  "toUpperCase s = map upper_char s"

definition trimStart :: "string \<Rightarrow> string" where
  "trimStart s = dropWhile is_ws s"

definition trimEnd :: "string \<Rightarrow> string" where
  "trimEnd s = rev (dropWhile is_ws (rev s))"

definition trim :: "string \<Rightarrow> string" where
  "trim s = trimEnd (trimStart s)"

text \<open>
  \<^verbatim>\<open>s.split(/[-\s_]+/)\<close>: the string is scanned from the left, \<open>cur\<close> is the token
  being read, and \<open>insep\<close> says that the scan is inside a run of separators (the
  \<^verbatim>\<open>+\<close> is greedy, so a run is one match). The result always has at least one token;
  a separator at either end leaves an empty token there.
\<close>

fun split_scan :: "bool \<Rightarrow> string \<Rightarrow> string \<Rightarrow> string list" where
  "split_scan insep cur [] = [cur]"
| "split_scan insep cur (c # cs) =
     (if is_sep c then (if insep then split_scan True cur cs else cur # split_scan True [] cs)
      else split_scan False (cur @ [c]) cs)"

definition split_seps :: "string \<Rightarrow> string list" where
  "split_seps s = split_scan False [] s"

text \<open>\<^verbatim>\<open>w.charAt(0).toUpperCase() + w.slice(1)\<close>; on the empty string both parts are empty.\<close>

definition capitalize :: "string \<Rightarrow> string" where
  "capitalize w = toUpperCase (take 1 w) @ drop 1 w"

text \<open>\<^verbatim>\<open>helperF.js\<close>, \<^verbatim>\<open>toCamelCase\<close>: the callback of \<^verbatim>\<open>map\<close> receives the token
  and its index.\<close>

definition toCamelCase :: "string \<Rightarrow> string" where
  "toCamelCase str =
     concat (map (\<lambda>(i, w). if i = 0 then w else capitalize w)
                 (enumerate 0 (split_seps (toLowerCase (trim str)))))"

text \<open>\<^verbatim>\<open>helperF.js\<close>, \<^verbatim>\<open>toPascalCase\<close>.\<close>

definition toPascalCase :: "string \<Rightarrow> string" where
  "toPascalCase str = concat (map capitalize (split_seps (toLowerCase (trim str))))"


text \<open>A string with no character of the separator class: a single token.\<close>

definition sepfree :: "string \<Rightarrow> bool" where
  "sepfree s \<longleftrightarrow> (\<forall>c \<in> set s. \<not> is_sep c)"

section \<open>Values of the generated code\<close>

text \<open>
  The data a generated module sees: \<^verbatim>\<open>undefined\<close>, \<^verbatim>\<open>null\<close>, booleans, numbers,
  strings, arrays and plain objects (an object is the list of its own properties, in
  insertion order, with distinct keys). A number is \<^verbatim>\<open>NaN\<close> or an integer: every
  check below only asks a number for its type, whether it is \<^verbatim>\<open>NaN\<close>, and whether
  its text is blank, and no double has a blank text. \<^verbatim>\<open>Date\<close> instances and properties
  inherited from \<^verbatim>\<open>Object.prototype\<close> are outside the model.
\<close>

datatype jsnum = NaN | Finite int

datatype jsval =
    JUndefined
  | JNull
  | JBool bool
  | JNum jsnum
  | JStr string
  | JArr "jsval list"
  | JObj "(string \<times> jsval) list"

type_synonym jsobject = "(string \<times> jsval) list"

text \<open>A thrown \<^verbatim>\<open>Error\<close> with its message.\<close>

datatype js_error = Error string

fun message :: "js_error \<Rightarrow> string" where
  "message (Error m) = m"

datatype js_type = TUndefined | TObject | TBoolean | TNumber | TString

fun typeof :: "jsval \<Rightarrow> js_type" where
  "typeof JUndefined = TUndefined"
| "typeof JNull = TObject"
| "typeof (JBool b) = TBoolean"
| "typeof (JNum n) = TNumber"
| "typeof (JStr s) = TString"
| "typeof (JArr xs) = TObject"
| "typeof (JObj kvs) = TObject"

fun isArray :: "jsval \<Rightarrow> bool" where
  "isArray (JArr xs) = True"
| "isArray v = False"

text \<open>\<^verbatim>\<open>data.f\<close> on a plain object: the own property, or \<^verbatim>\<open>undefined\<close>.\<close>

definition get_prop :: "jsobject \<Rightarrow> string \<Rightarrow> jsval" where
  "get_prop obj f = (case map_of obj f of None \<Rightarrow> JUndefined | Some v \<Rightarrow> v)"

text \<open>Decimal text of an integer (JavaScript switches to exponent notation from
  \<open>10\<^sup>2\<^sup>1\<close> on; that text is not blank either).\<close>

definition digit_char :: "nat \<Rightarrow> char" where
  "digit_char d = char_of (48 + d)"

function show_nat :: "nat \<Rightarrow> string" where
  "show_nat n = (if n < 10 then [digit_char n] else show_nat (n div 10) @ [digit_char (n mod 10)])"
  by pat_completeness auto
termination
  by (relation "measure id") auto

declare show_nat.simps [simp del]

definition show_int :: "int \<Rightarrow> string" where
  "show_int i = (if i < 0 then CHR ''-'' # show_nat (nat (- i)) else show_nat (nat i))"

text \<open>\<^verbatim>\<open>Array.prototype.join\<close> on the texts of the elements.\<close>

fun join :: "string \<Rightarrow> string list \<Rightarrow> string" where
  "join sep [] = []"
| "join sep [x] = x"
| "join sep (x # y # ys) = x @ sep @ join sep (y # ys)"

text \<open>\<^verbatim>\<open>String(v)\<close>. An array is joined with commas, \<^verbatim>\<open>null\<close> and \<^verbatim>\<open>undefined\<close>
  elements giving the empty text, so \<^verbatim>\<open>String([])\<close> is the empty string.\<close>

fun js_String :: "jsval \<Rightarrow> string" where
  "js_String JUndefined = ''undefined''"
| "js_String JNull = ''null''"
| "js_String (JBool b) = (if b then ''true'' else ''false'')"
| "js_String (JNum NaN) = ''NaN''"
| "js_String (JNum (Finite i)) = show_int i"
| "js_String (JStr s) = s"
| "js_String (JArr xs) =
     join '','' (map (\<lambda>x. if x = JUndefined \<or> x = JNull then [] else js_String x) xs)"
| "js_String (JObj kvs) = ''[object Object]''"

section \<open>The validator generator\<close>

text \<open>
  \<^verbatim>\<open>generateValidationModule\<close> walks the field map of a collection (a list of field
  name and type tag, in the order of \<^verbatim>\<open>for ... in\<close>) and collects three lists of
  checks, which the generated \<^verbatim>\<open>validate<Name>(data)\<close> runs in this order: the required
  checks, the type checks, the e-mail existence checks.
\<close>

record validation_module =
  requiredFieldChecks :: "string list"
  typeChecks :: "(string \<times> string) list"
  emailFields :: "string list"

text \<open>The \<^verbatim>\<open>switch\<close> on the type tag sets \<^verbatim>\<open>typeCheckCondition\<close> for these tags and
  leaves it empty in the \<^verbatim>\<open>default\<close> branch.\<close>

definition has_typeCheckCondition :: "string \<Rightarrow> bool" where
  "has_typeCheckCondition fieldType \<longleftrightarrow>
     fieldType \<in> set [''string'', ''number'', ''boolean'', ''array'', ''object'', ''timestamp'', ''email'']"

fun field_loop :: "(string \<times> string) list \<Rightarrow> validation_module \<Rightarrow> validation_module" where
  "field_loop [] m = m"
| "field_loop ((fieldName, fieldType) # rest) m =
     field_loop rest
       (m\<lparr> requiredFieldChecks := requiredFieldChecks m @ [fieldName],
           typeChecks := (if has_typeCheckCondition fieldType
                          then typeChecks m @ [(fieldName, fieldType)] else typeChecks m),
           emailFields := (if fieldType = ''email''
                           then emailFields m @ [fieldName] else emailFields m) \<rparr>)"

definition generateValidationModule :: "(string \<times> string) list \<Rightarrow> validation_module" where
  "generateValidationModule fieldMap =
     field_loop fieldMap \<lparr> requiredFieldChecks = [], typeChecks = [], emailFields = [] \<rparr>"

text \<open>What the generated validator needs from outside: whether a text that is not blank
  is a numeric literal (\<^verbatim>\<open>Number(s)\<close> is not \<^verbatim>\<open>NaN\<close>), whether \<^verbatim>\<open>new Date(s)\<close> is a
  valid date, \<^verbatim>\<open>getAuth()\<close> (which may throw), and the answer of
  \<^verbatim>\<open>fetchSignInMethodsForEmail\<close> (a rejection is \<open>Inl\<close>).\<close>

record validator_env =
  numberParses :: "string \<Rightarrow> bool"
  dateParses :: "string \<Rightarrow> bool"
  getAuth :: "js_error option"
  fetchSignInMethodsForEmail :: "string \<Rightarrow> js_error + string list"

text \<open>\<^verbatim>\<open>/^\S+@\S+\.\S+$/.test(s)\<close>: no white space anywhere, an \<^verbatim>\<open>@\<close> after at least one
  character, and later a dot with at least one character on each side.\<close>

definition email_format :: "string \<Rightarrow> bool" where
  "email_format s \<longleftrightarrow>
     list_all (\<lambda>c. \<not> is_ws c) s \<and>
     list_ex (\<lambda>i. s ! i = CHR ''@'' \<and> list_ex (\<lambda>j. s ! j = CHR ''.'') [i + 2 ..< length s - 1])
             [1 ..< length s]"

text \<open>The global \<^verbatim>\<open>isNaN(v)\<close>, which converts its argument to a number first:
  \<^verbatim>\<open>undefined\<close> becomes \<^verbatim>\<open>NaN\<close>, \<^verbatim>\<open>null\<close> and the booleans become numbers, a text
  becomes 0 when it is blank and is parsed otherwise, an array or object is converted
  through its text.\<close>

definition text_isNaN :: "validator_env \<Rightarrow> string \<Rightarrow> bool" where
  "text_isNaN env s \<longleftrightarrow> trim s \<noteq> [] \<and> \<not> numberParses env (trim s)"

fun isNaN_global :: "validator_env \<Rightarrow> jsval \<Rightarrow> bool" where
  "isNaN_global env JUndefined = True"
| "isNaN_global env JNull = False"
| "isNaN_global env (JBool b) = False"
| "isNaN_global env (JNum n) = (n = NaN)"
| "isNaN_global env (JStr s) = text_isNaN env s"
| "isNaN_global env (JArr xs) = text_isNaN env (js_String (JArr xs))"
| "isNaN_global env (JObj kvs) = text_isNaN env (js_String (JObj kvs))"

text \<open>\<^verbatim>\<open>isNaN(new Date(v).getTime())\<close>: \<^verbatim>\<open>new Date(undefined)\<close> is an invalid date,
  \<^verbatim>\<open>null\<close> and the booleans are taken as numbers, a number is a time value when it is
  within the range of dates, a text is parsed, an array or object is converted through
  its text.\<close>

fun date_invalid :: "validator_env \<Rightarrow> jsval \<Rightarrow> bool" where
  "date_invalid env JUndefined = True"
| "date_invalid env JNull = False"
| "date_invalid env (JBool b) = False"
| "date_invalid env (JNum NaN) = True"
| "date_invalid env (JNum (Finite i)) = (\<bar>i\<bar> > 8640000000000000)"
| "date_invalid env (JStr s) = (\<not> dateParses env s)"
| "date_invalid env (JArr xs) = (\<not> dateParses env (js_String (JArr xs)))"
| "date_invalid env (JObj kvs) = (\<not> dateParses env (js_String (JObj kvs)))"

text \<open>
  \<^verbatim>\<open>typeCheckCondition\<close> is spliced into
  \<^verbatim>\<open>if (data.f !== undefined && data.f !== null && String(data.f).trim() !== '' && <condition>)\<close>
  without parentheses. \<^verbatim>\<open>&&\<close> binds tighter than \<^verbatim>\<open>||\<close>, so only the first operand of
  a condition that is a disjunction stands under the guard; the operands after its first
  \<^verbatim>\<open>||\<close> are alternatives to the guard. The two definitions give the first operand and
  the disjunction of the others, for each type tag.
\<close>

definition guarded_operand :: "string \<Rightarrow> jsval \<Rightarrow> bool" where
  "guarded_operand fieldType v =
     (if fieldType = ''string'' then typeof v \<noteq> TString
      else if fieldType = ''number'' then typeof v \<noteq> TNumber
      else if fieldType = ''boolean'' then typeof v \<noteq> TBoolean
      else if fieldType = ''array'' then \<not> isArray v
      else if fieldType = ''object'' then typeof v \<noteq> TObject
      else if fieldType = ''timestamp'' then typeof v \<noteq> TString
      else if fieldType = ''email'' then typeof v \<noteq> TString
      else False)"

definition escaping_operands :: "validator_env \<Rightarrow> string \<Rightarrow> jsval \<Rightarrow> bool" where
  "escaping_operands env fieldType v =
     (if fieldType = ''number'' then isNaN_global env v
      else if fieldType = ''object'' then isArray v \<or> v = JNull
      else if fieldType = ''timestamp'' then date_invalid env v
      else if fieldType = ''email'' then \<not> email_format (js_String v)
      else False)"

text \<open>An entry of the error list, with the field it is about.\<close>

datatype verror = Required string | TypeMismatch string string | EmailInUse string

text \<open>The text \<^verbatim>\<open>typeErrorMessage\<close> of the generator: the field name in single quotes,
  then the rest of the sentence.\<close>

definition typeErrorMessage :: "string \<Rightarrow> string \<Rightarrow> string" where
  "typeErrorMessage fieldName fieldType = [CHR 0x27] @ fieldName @ [CHR 0x27] @
     (if fieldType = ''string'' then '' must be a string.''
      else if fieldType = ''number'' then '' must be a number.''
      else if fieldType = ''boolean'' then '' must be a boolean.''
      else if fieldType = ''array'' then '' must be an array.''
      else if fieldType = ''object'' then '' must be an object.''
      else if fieldType = ''timestamp'' then '' must be a valid date or timestamp string.''
      else '' must be a valid email format.'')"

fun render :: "verror \<Rightarrow> string" where
  "render (Required f) = f @ '' is required.''"
| "render (TypeMismatch f t) = typeErrorMessage f t"
| "render (EmailInUse f) =
     ''The email address '' @ [CHR 0x27] @ f @ [CHR 0x27] @ '' is already in use.''"

text \<open>
  The generator emits \<^verbatim>\<open>errors.push(${typeErrorMessage});\<close>: the text of the message
  becomes the argument of \<^verbatim>\<open>push\<close> as it is, with no quotes around it. The argument is
  an expression only when that text is one string literal: a quote, characters that are
  neither a quote nor a backslash nor a line break, a quote. (The required message and
  the message of the existence check are emitted inside quotes; field names are
  identifiers.) A module with an argument that is not an expression does not parse, and
  importing it throws a \<^verbatim>\<open>SyntaxError\<close>.
\<close>

definition is_string_literal :: "string \<Rightarrow> bool" where
  "is_string_literal t \<longleftrightarrow>
     2 \<le> length t \<and> hd t = CHR 0x27 \<and> last t = CHR 0x27 \<and>
     list_all (\<lambda>c. c \<noteq> CHR 0x27 \<and> c \<noteq> CHR 0x5C \<and> c \<noteq> CHR 0x0A \<and> c \<noteq> CHR 0x0D) (butlast (tl t))"

definition validator_parses :: "validation_module \<Rightarrow> bool" where
  "validator_parses m \<longleftrightarrow>
     list_all (\<lambda>ft. is_string_literal (typeErrorMessage (fst ft) (snd ft))) (typeChecks m)"

text \<open>The required check of one field:
  \<^verbatim>\<open>data.f === undefined || data.f === null || String(data.f).trim() === ''\<close>.\<close>

definition required_check :: "jsobject \<Rightarrow> string \<Rightarrow> verror list" where
  "required_check data f =
     (let v = get_prop data f in
      if v = JUndefined \<or> v = JNull \<or> trim (js_String v) = [] then [Required f] else [])"

text \<open>The type check of one field, as the emitted condition groups:
  \<^verbatim>\<open>(guard && first operand) || other operands\<close>.\<close>

definition type_check :: "validator_env \<Rightarrow> jsobject \<Rightarrow> string \<times> string \<Rightarrow> verror list" where
  "type_check env data ft =
     (let v = get_prop data (fst ft) in
      if (v \<noteq> JUndefined \<and> v \<noteq> JNull \<and> trim (js_String v) \<noteq> [] \<and> guarded_operand (snd ft) v) \<or>
         escaping_operands env (snd ft) v
      then [TypeMismatch (fst ft) (snd ft)] else [])"

text \<open>The existence check of one e-mail field on the running error list; \<open>logged\<close>
  collects what the \<^verbatim>\<open>catch\<close> branch hands to \<^verbatim>\<open>console.error\<close>. The guard is
  \<^verbatim>\<open>typeof data.f === 'string' && data.f.trim() !== '' && /^\S+@\S+\.\S+$/.test(data.f)\<close>.\<close>

definition email_check ::
  "validator_env \<Rightarrow> jsobject \<Rightarrow> string \<Rightarrow> verror list \<times> (string \<times> js_error) list \<Rightarrow>
   verror list \<times> (string \<times> js_error) list" where
  "email_check env data emailField acc =
     (case get_prop data emailField of
        JStr s \<Rightarrow>
          if trim s \<noteq> [] \<and> email_format s then
            (case fetchSignInMethodsForEmail env s of
               Inr signInMethods \<Rightarrow>
                 (if signInMethods \<noteq> [] then fst acc @ [EmailInUse emailField] else fst acc, snd acc)
             | Inl error \<Rightarrow> (fst acc, snd acc @ [(emailField, error)]))
          else acc
      | _ \<Rightarrow> acc)"

text \<open>The existence checks of all e-mail fields, one after the other.\<close>

fun email_checks ::
  "validator_env \<Rightarrow> jsobject \<Rightarrow> string list \<Rightarrow> verror list \<times> (string \<times> js_error) list \<Rightarrow>
   verror list \<times> (string \<times> js_error) list" where
  "email_checks env data [] acc = acc"
| "email_checks env data (emailField # rest) acc =
     email_checks env data rest (email_check env data emailField acc)"

text \<open>\<^verbatim>\<open>data = data || {}\<close>: a missing argument becomes the empty object.\<close>

definition or_empty :: "jsobject option \<Rightarrow> jsobject" where
  "or_empty data0 = (case data0 of None \<Rightarrow> [] | Some d \<Rightarrow> d)"

text \<open>The statements of the body of \<^verbatim>\<open>validate<Name>(data)\<close>, read with the message text
  as the value pushed: the error list and the diagnostics logged, or the error thrown by
  \<^verbatim>\<open>getAuth()\<close>, which is called outside every \<^verbatim>\<open>try\<close> and only when there is an
  e-mail field.\<close>

definition body_checks ::
  "validator_env \<Rightarrow> validation_module \<Rightarrow> jsobject option \<Rightarrow>
   js_error + verror list \<times> (string \<times> js_error) list" where
  "body_checks env m data0 =
     (let data = or_empty data0;
          errors = concat (map (required_check data) (requiredFieldChecks m)) @
                   concat (map (type_check env data) (typeChecks m))
      in if emailFields m = [] then Inr (errors, [])
         else (case getAuth env of
                 Some e \<Rightarrow> Inl e
               | None \<Rightarrow> Inr (email_checks env data (emailFields m) (errors, []))))"

text \<open>The generated validator: \<open>None\<close> when the module does not parse, so that there is
  no function to call; otherwise what the body computes.\<close>

definition validate ::
  "validator_env \<Rightarrow> validation_module \<Rightarrow> jsobject option \<Rightarrow>
   (js_error + verror list \<times> (string \<times> js_error) list) option" where
  "validate env m data0 = (if validator_parses m then Some (body_checks env m data0) else None)"

subsection \<open>Sample collections\<close>

text \<open>The collections of the end-to-end scenarios: products with a title, a price and
  a stock flag; a collection with a tag list; contacts with an e-mail address; and a
  collection whose only field has a type tag the generator does not know. The sample
  environment has no reachable sign-in service and reads digits as numbers.\<close>

definition products_fields :: "(string \<times> string) list" where
  "products_fields = [(''title'', ''string''), (''price'', ''number''), (''inStock'', ''boolean'')]"

definition products_input :: jsobject where
  "products_input = [(''title'', JStr ''Book''), (''inStock'', JBool True)]"

definition posts_fields :: "(string \<times> string) list" where
  "posts_fields = [(''tags'', ''array'')]"

definition posts_input :: jsobject where
  "posts_input = [(''tags'', JArr [])]"

definition contacts_fields :: "(string \<times> string) list" where
  "contacts_fields = [(''name'', ''string''), (''email'', ''email'')]"

definition contacts_input :: jsobject where
  "contacts_input = [(''name'', JStr ''Ann''), (''email'', JStr ''ann@example.org'')]"

definition notes_fields :: "(string \<times> string) list" where
  "notes_fields = [(''body'', ''text'')]"

definition offline_env :: validator_env where
  "offline_env = \<lparr> numberParses = (\<lambda>s. list_all (\<lambda>c. c \<in> set ''0123456789'') s),
                   dateParses = (\<lambda>s. False), getAuth = None,
                   fetchSignInMethodsForEmail = (\<lambda>s. Inl (Error ''auth/network-request-failed'')) \<rparr>"

definition no_app_env :: validator_env where
  "no_app_env = offline_env \<lparr> getAuth := Some (Error ''app/no-app'') \<rparr>"

section \<open>The route generator\<close>

text \<open>
  \<^verbatim>\<open>generateRouter(answers)\<close> builds the array \<^verbatim>\<open>routes\<close> by a sequence of pushes and
  then prints it into \<^verbatim>\<open>src/router/index.js\<close>. The model is the array. A flag of
  \<^verbatim>\<open>answers\<close> is a boolean or missing (a prompt that was skipped), and is tested for
  truthiness.
\<close>

record collectionConfig =
  c_name :: string
  c_fields :: "(string \<times> string) list"
  c_dataType :: string

record answers =
  enableAuth :: "bool option"
  enableRoles :: "bool option"
  enableAuthViews :: "bool option"
  enableAdmin :: "bool option"
  enableLanding :: "bool option"
  collections :: "collectionConfig list option"

definition truthy :: "bool option \<Rightarrow> bool" where
  "truthy b = (b = Some True)"

text \<open>The \<^verbatim>\<open>meta\<close> object of a route; a property that the literal does not set, or sets
  to \<^verbatim>\<open>undefined\<close>, is \<open>None\<close>.\<close>

record route_meta =
  m_layout :: string
  m_requiresAuth :: "bool option"
  m_guestOnly :: "bool option"
  m_requiresAdmin :: "bool option"

record route =
  r_path :: string
  r_name :: "string option"
  r_component :: "string option"
  r_props :: "bool option"
  r_meta :: "route_meta option"
  r_redirect :: "string option"

definition lazy_import :: "string \<Rightarrow> string" where
  "lazy_import file = ''() => import('' @ [CHR 0x27] @ file @ [CHR 0x27] @ '')''"

definition getStandardComponentLazyImportPath :: "string \<Rightarrow> string \<Rightarrow> string" where
  "getStandardComponentLazyImportPath componentName subDir =
     lazy_import (''@/views/'' @ (if subDir \<noteq> [] then subDir @ ''/'' else []) @ componentName @ ''.vue'')"

definition guest_meta :: "bool \<Rightarrow> route_meta" where
  "guest_meta guestOnly =
     \<lparr> m_layout = ''GuestLayout'', m_requiresAuth = None,
       m_guestOnly = (if guestOnly then Some True else None), m_requiresAdmin = None \<rparr>"

definition app_meta :: route_meta where
  "app_meta = \<lparr> m_layout = ''AppLayout'', m_requiresAuth = Some True, m_guestOnly = None,
                m_requiresAdmin = None \<rparr>"

definition admin_meta :: "bool option \<Rightarrow> route_meta" where
  "admin_meta roles = \<lparr> m_layout = ''AdminLayout'', m_requiresAuth = Some True, m_guestOnly = None,
                        m_requiresAdmin = roles \<rparr>"

definition view_route :: "string \<Rightarrow> string \<Rightarrow> string \<Rightarrow> string \<Rightarrow> route_meta \<Rightarrow> route" where
  "view_route p n componentName subDir m =
     \<lparr> r_path = p, r_name = Some n,
       r_component = Some (getStandardComponentLazyImportPath componentName subDir),
       r_props = None, r_meta = Some m, r_redirect = None \<rparr>"

definition landing_route :: route where
  "landing_route = view_route ''/'' ''Home'' ''LandingPage'' [] (guest_meta False)"

definition home_route :: route where
  "home_route = view_route ''/'' ''Home'' ''HomeView'' [] app_meta"

definition auth_routes :: "route list" where
  "auth_routes =
     [view_route ''/login'' ''Login'' ''LoginView'' ''auth'' (guest_meta True),
      view_route ''/register'' ''Register'' ''RegisterView'' ''auth'' (guest_meta True),
      view_route ''/forgot-password'' ''ForgotPassword'' ''ForgotPasswordView'' ''auth'' (guest_meta True),
      view_route ''/reset-password'' ''ResetPassword'' ''ResetPasswordView'' ''auth'' (guest_meta True),
      view_route ''/verify-email'' ''VerifyEmail'' ''VerifyEmailView'' ''auth'' (guest_meta True),
      view_route ''/unauthorized'' ''Unauthorized'' ''UnauthorizedView'' ''auth'' (guest_meta False),
      view_route ''/account'' ''Account'' ''AccountView'' [] app_meta,
      view_route ''/settings'' ''Settings'' ''SettingsView'' [] app_meta]"

definition admin_routes :: "bool option \<Rightarrow> route list" where
  "admin_routes roles =
     [view_route ''/admin/dashboard'' ''AdminDashboard'' ''DashboardView'' ''admin'' (admin_meta roles),
      view_route ''/admin/users'' ''AdminUsers'' ''UsersView'' ''admin'' (admin_meta roles)]"

definition create_route :: "collectionConfig \<Rightarrow> route" where
  "create_route collectionConfig =
     (let pascalCollectionName = toPascalCase (c_name collectionConfig);
          camelCollectionName = toCamelCase (c_name collectionConfig)
      in \<lparr> r_path = ''/'' @ camelCollectionName @ ''/create'',
           r_name = Some (pascalCollectionName @ ''Create''),
           r_component = Some (lazy_import (''@/views/'' @ camelCollectionName @ ''/Create.vue'')),
           r_props = None, r_meta = Some app_meta, r_redirect = None \<rparr>)"

definition edit_route :: "collectionConfig \<Rightarrow> route" where
  "edit_route collectionConfig =
     (let pascalCollectionName = toPascalCase (c_name collectionConfig);
          camelCollectionName = toCamelCase (c_name collectionConfig)
      in \<lparr> r_path = ''/'' @ camelCollectionName @ ''/edit/:id'',
           r_name = Some (pascalCollectionName @ ''Edit''),
           r_component = Some (lazy_import (''@/views/'' @ camelCollectionName @ ''/Edit.vue'')),
           r_props = Some True, r_meta = Some app_meta, r_redirect = None \<rparr>)"

definition catch_all_route :: route where
  "catch_all_route =
     \<lparr> r_path = ''/:pathMatch(.*)*'', r_name = None, r_component = None, r_props = None,
       r_meta = None, r_redirect = Some ''/'' \<rparr>"

text \<open>\<^verbatim>\<open>routes.push(...)\<close> appends its arguments to the array.\<close>

definition push :: "'a list \<Rightarrow> 'a list \<Rightarrow> 'a list" where
  "push routes new = routes @ new"

text \<open>The loop over the collections, one push of two routes for each.\<close>

fun collection_loop :: "collectionConfig list \<Rightarrow> route list \<Rightarrow> route list" where
  "collection_loop [] routes = routes"
| "collection_loop (collectionConfig # rest) routes =
     collection_loop rest (push routes [create_route collectionConfig, edit_route collectionConfig])"

definition generateRouter_routes :: "answers \<Rightarrow> route list" where
  "generateRouter_routes a =
     (let routes0 = [];
          routes1 = (if truthy (enableLanding a) then push routes0 [landing_route]
                     else push routes0 [home_route]);
          routes2 = (if truthy (enableAuth a) \<and> truthy (enableAuthViews a)
                     then push routes1 auth_routes else routes1);
          routes3 = (if truthy (enableAdmin a) then push routes2 (admin_routes (enableRoles a))
                     else routes2);
          routes4 = (case collections a of
                       None \<Rightarrow> routes3
                     | Some cs \<Rightarrow> if length cs > 0 then collection_loop cs routes3 else routes3)
      in push routes4 [catch_all_route])"

text \<open>The collections of \<^verbatim>\<open>answers\<close>, none when the property is missing.\<close>

definition collections_of :: "answers \<Rightarrow> collectionConfig list" where
  "collections_of a = (case collections a of None \<Rightarrow> [] | Some cs \<Rightarrow> cs)"

text \<open>What one entry of the table says: its path, its name and its redirect.\<close>

abbreviation entry :: "route \<Rightarrow> string \<times> string option \<times> string option" where
  "entry r \<equiv> (r_path r, r_name r, r_redirect r)"

subsection \<open>Sample answers\<close>

text \<open>A project with every flag set and two collections, and the answers of a run
  with authentication but without its views, in which the other prompts were skipped.\<close>

definition full_answers :: answers where
  "full_answers =
     \<lparr> enableAuth = Some True, enableRoles = Some True, enableAuthViews = Some True,
       enableAdmin = Some True, enableLanding = Some True,
       collections = Some [\<lparr> c_name = ''user profiles'', c_fields = [(''name'', ''string'')],
                               c_dataType = ''object'' \<rparr>,
                            \<lparr> c_name = ''products'', c_fields = [], c_dataType = ''object'' \<rparr>] \<rparr>"

definition bare_answers :: answers where
  "bare_answers =
     \<lparr> enableAuth = Some True, enableRoles = None, enableAuthViews = Some False,
       enableAdmin = None, enableLanding = None, collections = None \<rparr>"

section \<open>The store generator\<close>

text \<open>
  \<^verbatim>\<open>generateStore(options)\<close> exists in two versions. The later one takes collection
  objects with a name and a field map and normalises them; the earlier one
  (\<^verbatim>\<open>generateStore.js\<close>) takes collection names. Both check their input, create the
  actions directory and then call the file generators in a fixed order.

  The file system and the file generators are parameters of the model: a step takes the
  state of the file system and returns the state it leaves, with the error it throws, if
  any. \<open>'c\<close> is what a generator receives for a collection.
\<close>

type_synonym 'fs step = "'fs \<Rightarrow> js_error option \<times> 'fs"

record ('fs, 'c) store_env =
  existsSync :: "string \<Rightarrow> 'fs \<Rightarrow> bool"
  mkdirSync :: "string \<Rightarrow> 'fs step"
  generateStateFile :: "string \<Rightarrow> 'c list \<Rightarrow> 'c list \<Rightarrow> bool \<Rightarrow> 'fs step"
  generateFirestoreUtilFile :: "string \<Rightarrow> 'c list \<Rightarrow> string list \<Rightarrow> bool \<Rightarrow> 'fs step"
  generateCollectionActionModule :: "string \<Rightarrow> 'c \<Rightarrow> 'fs step"
  generateValidationModule_file :: "string \<Rightarrow> 'c \<Rightarrow> 'fs step"
  generateIndexFile :: "string \<Rightarrow> string \<Rightarrow> string list \<Rightarrow> string list \<Rightarrow> bool \<Rightarrow> 'fs step"
  generateActivityLogger :: "string \<Rightarrow> 'fs step"
  generateDocumentation ::
    "string \<Rightarrow> string \<Rightarrow> 'c list \<Rightarrow> 'c list \<Rightarrow> string list \<Rightarrow> bool \<Rightarrow> 'fs step"

text \<open>Statements in sequence: the first error ends the run and leaves the file system
  as it is at that point.\<close>

fun run_steps :: "'fs step list \<Rightarrow> 'fs step" where
  "run_steps [] fs = (None, fs)"
| "run_steps (s # ss) fs =
     (case s fs of (Some e, fs') \<Rightarrow> (Some e, fs') | (None, fs') \<Rightarrow> run_steps ss fs')"

text \<open>\<^verbatim>\<open>path.join\<close> on segments that need no normalisation.\<close>

definition path_join :: "string list \<Rightarrow> string" where
  "path_join segments = join ''/'' segments"

text \<open>\<^verbatim>\<open>ensureDir\<close>: the directory is created when it does not exist; an error of
  \<^verbatim>\<open>mkdirSync\<close> is wrapped.\<close>

definition ensureDir :: "('fs, 'c) store_env \<Rightarrow> string \<Rightarrow> 'fs step" where
  "ensureDir env dirPath fs =
     (if \<not> existsSync env dirPath fs then
        (case mkdirSync env dirPath fs of
           (Some error, fs') \<Rightarrow>
             (Some (Error (''Failed to create directory: '' @ dirPath @ [CHR 0x0A] @ message error)), fs')
         | (None, fs') \<Rightarrow> (None, fs'))
      else (None, fs))"

text \<open>A collection as the caller passes it: any of the three properties may be missing.\<close>

record rawCollection =
  rc_name :: "string option"
  rc_fields :: "(string \<times> string) list option"
  rc_dataType :: "string option"

text \<open>\<^verbatim>\<open>!c.name || !c.fields\<close>: the name is missing or the empty string, or the field map
  is missing. An empty field map is an object, and every object is truthy.\<close>

definition lacks_name_or_fields :: "rawCollection \<Rightarrow> bool" where
  "lacks_name_or_fields c \<longleftrightarrow>
     (case rc_name c of None \<Rightarrow> True | Some n \<Rightarrow> n = []) \<or> rc_fields c = None"

text \<open>The entry that the callback of \<^verbatim>\<open>collections.map\<close> returns:
  \<^verbatim>\<open>{ ...c, name: toCamelCase(c.name).trim(), dataType: c.dataType || 'object' }\<close>.\<close>

definition normalized :: "rawCollection \<Rightarrow> collectionConfig" where
  "normalized c =
     \<lparr> c_name = trim (toCamelCase (case rc_name c of None \<Rightarrow> [] | Some n \<Rightarrow> n)),
       c_fields = (case rc_fields c of None \<Rightarrow> [] | Some fs \<Rightarrow> fs),
       c_dataType = (case rc_dataType c of None \<Rightarrow> ''object''
                     | Some d \<Rightarrow> if d = [] then ''object'' else d) \<rparr>"

text \<open>The callback: it throws on an entry without name or fields. The message quotes
  \<^verbatim>\<open>JSON.stringify(c)\<close>, here \<open>sfy c\<close>.\<close>

definition processCollection :: "(rawCollection \<Rightarrow> string) \<Rightarrow> rawCollection \<Rightarrow> js_error + collectionConfig" where
  "processCollection sfy c =
     (if lacks_name_or_fields c then
        Inl (Error (''Collection '' @ [CHR 0x22] @ sfy c @ [CHR 0x22] @
                    '' is missing '' @ [CHR 0x27] @ ''name'' @ [CHR 0x27] @ '' or '' @
                    [CHR 0x27] @ ''fields'' @ [CHR 0x27] @
                    '' property. Each collection must have a name and define its fields.''))
      else Inr (normalized c))"

text \<open>\<^verbatim>\<open>Array.prototype.map\<close> with a callback that may throw: the first throw ends it.\<close>

fun map_throwing :: "('a \<Rightarrow> js_error + 'b) \<Rightarrow> 'a list \<Rightarrow> js_error + 'b list" where
  "map_throwing f [] = Inr []"
| "map_throwing f (x # xs) =
     (case f x of
        Inl e \<Rightarrow> Inl e
      | Inr y \<Rightarrow> (case map_throwing f xs of Inl e \<Rightarrow> Inl e | Inr ys \<Rightarrow> Inr (y # ys)))"

text \<open>\<^verbatim>\<open>processedCollections\<close>: the normalised entries whose name is not empty.\<close>

definition processCollections ::
  "(rawCollection \<Rightarrow> string) \<Rightarrow> rawCollection list \<Rightarrow> js_error + collectionConfig list" where
  "processCollections sfy cs =
     (case map_throwing (processCollection sfy) cs of
        Inl e \<Rightarrow> Inl e
      | Inr ps \<Rightarrow> Inr (filter (\<lambda>c. c_name c \<noteq> []) ps))"

definition authCollectionNames :: "string list" where
  "authCollectionNames =
     [''users'', ''user'', ''customer'', ''client'', ''clients'', ''customers'', ''student'',
      ''students'', ''admins'', ''admin'', ''accounts'', ''account'']"

text \<open>\<^verbatim>\<open>isAuthCollection\<close> of the later version, on a collection object.\<close>

definition isAuthCollection :: "collectionConfig \<Rightarrow> bool" where
  "isAuthCollection collectionConfig \<longleftrightarrow>
     toLowerCase (c_name collectionConfig) \<in> set authCollectionNames"

text \<open>\<^verbatim>\<open>isAuthCollection\<close> of the earlier version, on a collection name.\<close>

definition isAuthCollection_name :: "string \<Rightarrow> bool" where
  "isAuthCollection_name collectionName \<longleftrightarrow> toLowerCase collectionName \<in> set authCollectionNames"

record store_options =
  storeName :: "string option"
  o_collections :: "rawCollection list option"
  o_roles :: "string list option"
  addActivityLogging :: "bool option"

text \<open>The later \<^verbatim>\<open>generateStore\<close>. A missing option takes its default; the two input
  checks and the normalisation come before the first step that touches the file system.
  The action modules are generated twice, as the source does: once by the
  \<^verbatim>\<open>forEach\<close>, once more in the loop that also generates the validators.\<close>

definition generateStore ::
  "('fs, collectionConfig) store_env \<Rightarrow> (rawCollection \<Rightarrow> string) \<Rightarrow> store_options \<Rightarrow> 'fs step" where
  "generateStore env sfy options fs =
     (let name = (case storeName options of None \<Rightarrow> ''appStore'' | Some n \<Rightarrow> n);
          colls = (case o_collections options of None \<Rightarrow> [] | Some cs \<Rightarrow> cs);
          roles = (case o_roles options of None \<Rightarrow> [] | Some rs \<Rightarrow> rs);
          logging = truthy (addActivityLogging options)
      in if name = [] then (Some (Error ''Store name is required''), fs)
         else if length colls = 0 then (Some (Error ''At least one collection is required''), fs)
         else
           (case processCollections sfy colls of
              Inl e \<Rightarrow> (Some e, fs)
            | Inr processedCollections \<Rightarrow>
                (let authCollections = filter isAuthCollection processedCollections;
                     baseDir = path_join [''src'', ''stores'', name];
                     actionsDir = path_join [baseDir, ''actions'']
                 in run_steps
                      ([ensureDir env actionsDir,
                        generateStateFile env baseDir processedCollections authCollections logging,
                        generateFirestoreUtilFile env baseDir authCollections roles logging] @
                       map (generateCollectionActionModule env baseDir) processedCollections @
                       concat (map (\<lambda>c. [generateCollectionActionModule env baseDir c,
                                          generateValidationModule_file env baseDir c])
                                   processedCollections) @
                       [generateIndexFile env name baseDir (map c_name processedCollections)
                          (map c_name authCollections) logging] @
                       (if logging then [generateActivityLogger env baseDir] else []) @
                       [generateDocumentation env name baseDir processedCollections authCollections
                          roles logging])
                      fs)))"

text \<open>The earlier \<^verbatim>\<open>generateStore\<close>, on collection names.\<close>

record store_options_names =
  n_storeName :: "string option"
  n_collections :: "string list option"
  n_roles :: "string list option"
  n_addActivityLogging :: "bool option"

definition processNames :: "string list \<Rightarrow> string list" where
  "processNames colls = filter (\<lambda>n. n \<noteq> []) (map (\<lambda>c. trim (toCamelCase c)) colls)"

definition generateStore_names :: "('fs, string) store_env \<Rightarrow> store_options_names \<Rightarrow> 'fs step" where
  "generateStore_names env options fs =
     (let name = (case n_storeName options of None \<Rightarrow> ''appStore'' | Some n \<Rightarrow> n);
          colls = (case n_collections options of None \<Rightarrow> [] | Some cs \<Rightarrow> cs);
          roles = (case n_roles options of None \<Rightarrow> [] | Some rs \<Rightarrow> rs);
          logging = truthy (n_addActivityLogging options)
      in if name = [] then (Some (Error ''Store name is required''), fs)
         else if length colls = 0 then (Some (Error ''At least one collection is required''), fs)
         else
           (let processedCollections = processNames colls;
                authCollections = filter isAuthCollection_name processedCollections;
                baseDir = path_join [''src'', ''stores'', name];
                actionsDir = path_join [baseDir, ''actions'']
            in run_steps
                 ([ensureDir env actionsDir,
                   generateStateFile env baseDir processedCollections authCollections logging,
                   generateFirestoreUtilFile env baseDir authCollections roles logging] @
                  map (generateCollectionActionModule env baseDir) processedCollections @
                  [generateIndexFile env name baseDir processedCollections authCollections logging] @
                  (if logging then [generateActivityLogger env baseDir] else []) @
                  [generateDocumentation env name baseDir processedCollections authCollections
                     roles logging])
                 fs))"

subsection \<open>A sample environment\<close>

text \<open>A file system that is the list of the calls made on it, with generators that
  never fail; and sample collection lists.\<close>

definition record_call :: "string \<Rightarrow> string list step" where
  "record_call what fs = (None, fs @ [what])"

definition recording_env :: "(string list, 'c) store_env" where
  "recording_env =
     \<lparr> existsSync = (\<lambda>p fs. False),
       mkdirSync = (\<lambda>p. record_call (''mkdir '' @ p)),
       generateStateFile = (\<lambda>b cs as l. record_call ''state''),
       generateFirestoreUtilFile = (\<lambda>b as rs l. record_call ''firestore util''),
       generateCollectionActionModule = (\<lambda>b c. record_call ''action module''),
       generateValidationModule_file = (\<lambda>b c. record_call ''validator''),
       generateIndexFile = (\<lambda>n b cs as l. record_call ''index''),
       generateActivityLogger = (\<lambda>b. record_call ''activity logger''),
       generateDocumentation = (\<lambda>n b cs as rs l. record_call ''documentation'') \<rparr>"

definition raw_json :: "rawCollection \<Rightarrow> string" where
  "raw_json c = ''{}''"

definition sample_collections :: "rawCollection list" where
  "sample_collections =
     [\<lparr> rc_name = Some ''user profiles'', rc_fields = Some [], rc_dataType = None \<rparr>,
      \<lparr> rc_name = Some '' - '', rc_fields = Some [(''title'', ''string'')], rc_dataType = None \<rparr>]"

definition broken_collections :: "rawCollection list" where
  "broken_collections =
     [\<lparr> rc_name = Some ''products'', rc_fields = Some [], rc_dataType = None \<rparr>,
      \<lparr> rc_name = Some ''orders'', rc_fields = None, rc_dataType = None \<rparr>]"

section \<open>The generated persistence module\<close>

text \<open>
  \<^verbatim>\<open>generateFirestoreUtilFile\<close> writes the factory
  \<^verbatim>\<open>useFirestoreCollectionActions(collectionName, state)\<close>. There are two generators of
  that name: the basic one, and the one with the advanced features (flexible filters,
  activity logging, batches). The operations of both are modelled, with the suffixes
  \<open>_basic\<close> and \<open>_adv\<close>.

  The store is outside the program: what \<^verbatim>\<open>getDoc\<close>, \<^verbatim>\<open>updateDoc\<close>, \<^verbatim>\<open>getDocs\<close>
  and \<^verbatim>\<open>getCountFromServer\<close> answer is a parameter, on a store state \<open>'db\<close>. A
  rejection (also one of \<^verbatim>\<open>doc\<close>, \<^verbatim>\<open>where\<close> or \<^verbatim>\<open>limit\<close> on a bad argument) is
  \<open>Inl\<close>; \<^verbatim>\<open>getDoc\<close> answers \<open>None\<close> for a snapshot that does not exist.
\<close>

text \<open>A stored document: its \<^verbatim>\<open>roles\<close> field, when it has one, and its other fields.\<close>

record document =
  d_roles :: "string list option"
  d_data :: jsobject

text \<open>A document snapshot, or the object \<^verbatim>\<open>{ id: doc.id, ...doc.data() }\<close> made from it
  (documents have no field named \<^verbatim>\<open>id\<close> of their own).\<close>

type_synonym snapshot_doc = "string \<times> document"

datatype query_constraint =
    Where string string jsval
  | OrderBy string string
  | Limit "nat option"
  | StartAfter snapshot_doc

record 'db firestore_env =
  getDoc :: "'db \<Rightarrow> string \<Rightarrow> js_error + document option"
  updateDoc_roles :: "'db \<Rightarrow> string \<Rightarrow> string list \<Rightarrow> js_error + 'db"
  getDocs :: "'db \<Rightarrow> query_constraint list \<Rightarrow> js_error + snapshot_doc list"
  getCountFromServer :: "'db \<Rightarrow> query_constraint list \<Rightarrow> js_error + nat"

record user =
  u_uid :: "string option"
  u_roles :: "string list option"

record sort_config =
  sc_field :: string
  sc_direction :: "string option"

text \<open>\<^verbatim>\<open>state[collectionName].value\<close>; \<open>'f\<close> is the shape of the filters.\<close>

record 'f collection_state =
  cs_items :: "snapshot_doc list"
  cs_lastVisible :: "snapshot_doc option"
  cs_hasMore :: bool
  cs_filters :: "'f option"
  cs_orderBy :: "sort_config option"
  cs_pageSize :: "nat option"
  cs_total :: "nat option"

text \<open>The reactive state the factory receives: the current user, the shared last-error
  slot, the loading flag and the state of the collection.\<close>

record 'f pinia_state =
  st_currentUser :: "user option"
  st_error :: "string option"
  st_loading :: bool
  st_coll :: "'f collection_state"

text \<open>The \<^verbatim>\<open>catch\<close> block of every operation: \<^verbatim>\<open>state.error.value = error.message\<close>.\<close>

definition record_error :: "js_error \<Rightarrow> 'f pinia_state \<Rightarrow> 'f pinia_state" where
  "record_error e st = st\<lparr> st_error := Some (message e) \<rparr>"

subsection \<open>The two optional fragments\<close>

text \<open>
  Both generators build the text \<^verbatim>\<open>roleCheck\<close>, the method definition
  \<^verbatim>\<open>_checkRole(requiredRole) { ... },\<close>, when \<^verbatim>\<open>roles.length > 0\<close>, and the empty text
  otherwise; the advanced generator builds \<^verbatim>\<open>activityLoggingFunction\<close>, the method
  definition \<^verbatim>\<open>async _logActivity(...) { ... },\<close>, in the same way from
  \<^verbatim>\<open>activityLoggingEnabled\<close>. The basic generator splices \<^verbatim>\<open>roleCheck\<close> into the object
  literal it returns, where a method definition is a property. The advanced generator
  splices both fragments into the body of the factory, in front of
  \<^verbatim>\<open>return Object.freeze({\<close>, where a method definition followed by a comma is not a
  statement: its module parses only when both fragments are empty, and importing it
  throws a \<^verbatim>\<open>SyntaxError\<close> otherwise.
\<close>

datatype fragment = NoText | MethodDefinition

definition roleCheck :: "string list \<Rightarrow> fragment" where
  "roleCheck roles = (if length roles > 0 then MethodDefinition else NoText)"

definition activityLoggingFunction :: "bool \<Rightarrow> fragment" where
  "activityLoggingFunction activityLoggingEnabled =
     (if activityLoggingEnabled then MethodDefinition else NoText)"

definition adv_module_parses :: "string list \<Rightarrow> bool \<Rightarrow> bool" where
  "adv_module_parses roles activityLoggingEnabled \<longleftrightarrow>
     roleCheck roles = NoText \<and> activityLoggingFunction activityLoggingEnabled = NoText"

subsection \<open>get\<close>

text \<open>The basic \<^verbatim>\<open>get(id)\<close>: a snapshot that does not exist is an error, thrown inside
  the \<^verbatim>\<open>try\<close> and so recorded and thrown again by the \<^verbatim>\<open>catch\<close>. The message has no
  id in it.\<close>

definition get_basic ::
  "'db firestore_env \<Rightarrow> 'db \<Rightarrow> string \<Rightarrow> 'f pinia_state \<Rightarrow> (js_error + snapshot_doc) \<times> 'f pinia_state" where
  "get_basic env db ident st =
     (case (case getDoc env db ident of
              Inl e \<Rightarrow> Inl e
            | Inr None \<Rightarrow> Inl (Error ''Document with ID  not found'')
            | Inr (Some d) \<Rightarrow> Inr (ident, d)) of
        Inl error \<Rightarrow> (Inl error, record_error error st)
      | Inr found \<Rightarrow> (Inr found, st))"

text \<open>The advanced \<^verbatim>\<open>get(id)\<close>, for the roles and the logging flag the module was
  generated with: \<open>None\<close> when the module does not parse, so that there is no operation to
  call. In a module that parses, activity logging is off and the body has no logging
  call; a snapshot that does not exist gives \<^verbatim>\<open>null\<close>.\<close>

definition get_adv ::
  "string list \<Rightarrow> bool \<Rightarrow> 'db firestore_env \<Rightarrow> 'db \<Rightarrow> string \<Rightarrow> 'f pinia_state \<Rightarrow>
   ((js_error + snapshot_doc option) \<times> 'f pinia_state) option" where
  "get_adv roles activityLoggingEnabled env db ident st =
     (if adv_module_parses roles activityLoggingEnabled then
        Some (case getDoc env db ident of
                Inl error \<Rightarrow> (Inl error, record_error error st)
              | Inr None \<Rightarrow> (Inr None, st)
              | Inr (Some d) \<Rightarrow> (Inr (Some (ident, d)), st))
      else None)"

subsection \<open>Role actions\<close>

text \<open>\<^verbatim>\<open>_checkRole(requiredRole)\<close> of the basic generator.\<close>

definition checkRole_basic :: "'f pinia_state \<Rightarrow> string \<Rightarrow> js_error option" where
  "checkRole_basic st requiredRole =
     (case st_currentUser st of
        None \<Rightarrow> Some (Error ''User not authenticated'')
      | Some u \<Rightarrow>
          (case u_roles u of
             None \<Rightarrow> Some (Error ''User not authenticated'')
           | Some rs \<Rightarrow>
               if requiredRole \<notin> set rs
               then Some (Error (''User lacks required role: '' @ requiredRole)) else None))"

text \<open>The argument of the basic \<^verbatim>\<open>assignRoles\<close>: an array of roles, or one role, which
  \<^verbatim>\<open>Array.isArray(roles) ? roles : [roles]\<close> wraps.\<close>

datatype roles_arg = RoleArray "string list" | OneRole string

fun as_array :: "roles_arg \<Rightarrow> string list" where
  "as_array (RoleArray rs) = rs"
| "as_array (OneRole r) = [r]"

text \<open>The basic \<^verbatim>\<open>assignRoles(userId, roles)\<close> writes the given roles over the stored
  ones.\<close>

definition assignRoles_basic ::
  "'db firestore_env \<Rightarrow> 'db \<Rightarrow> string \<Rightarrow> roles_arg \<Rightarrow> 'f pinia_state \<Rightarrow>
   js_error option \<times> 'f pinia_state \<times> 'db" where
  "assignRoles_basic env db userId roles st =
     (case checkRole_basic st ''admin'' of
        Some error \<Rightarrow> (Some error, record_error error st, db)
      | None \<Rightarrow>
          (case updateDoc_roles env db userId (as_array roles) of
             Inl error \<Rightarrow> (Some error, record_error error st, db)
           | Inr db' \<Rightarrow> (None, st, db')))"

text \<open>\<^verbatim>\<open>userDoc.data().roles || []\<close>.\<close>

definition currentRoles :: "document \<Rightarrow> string list" where
  "currentRoles d = (case d_roles d of None \<Rightarrow> [] | Some rs \<Rightarrow> rs)"

text \<open>The basic \<^verbatim>\<open>revokeRoles(userId, roles)\<close>; nothing is written when the user
  document does not exist.\<close>

definition revokeRoles_basic ::
  "'db firestore_env \<Rightarrow> 'db \<Rightarrow> string \<Rightarrow> string list \<Rightarrow> 'f pinia_state \<Rightarrow>
   js_error option \<times> 'f pinia_state \<times> 'db" where
  "revokeRoles_basic env db userId roles st =
     (case checkRole_basic st ''admin'' of
        Some error \<Rightarrow> (Some error, record_error error st, db)
      | None \<Rightarrow>
          (case getDoc env db userId of
             Inl error \<Rightarrow> (Some error, record_error error st, db)
           | Inr None \<Rightarrow> (None, st, db)
           | Inr (Some userDoc) \<Rightarrow>
               (let newRoles = filter (\<lambda>role. role \<notin> set roles) (currentRoles userDoc)
                in case updateDoc_roles env db userId newRoles of
                     Inl error \<Rightarrow> (Some error, record_error error st, db)
                   | Inr db' \<Rightarrow> (None, st, db'))))"

text \<open>An entry of the constant \<^verbatim>\<open>authCollections\<close> of the generated file, which is
  \<^verbatim>\<open>JSON.stringify\<close> of the list the generator was given: a collection name (from
  the store generator on names) or a collection object (from the store generator on
  collection objects).\<close>

datatype auth_entry = AuthName string | AuthObject collectionConfig

text \<open>Whether the object the basic factory returns has \<^verbatim>\<open>assignRoles\<close> and
  \<^verbatim>\<open>revokeRoles\<close>: the generator emits the fragment when \<^verbatim>\<open>roles.length > 0\<close>, and the
  fragment spreads the two actions in when
  \<^verbatim>\<open>authCollections.includes(collectionName)\<close>, where \<^verbatim>\<open>collectionName\<close> is a string:
  an object entry is never equal to it. (The advanced generator emits the same fragment
  under the same condition, into a module that does not parse when roles are there.)\<close>

definition has_role_actions :: "string list \<Rightarrow> auth_entry list \<Rightarrow> string \<Rightarrow> bool" where
  "has_role_actions roles authCollections collectionName \<longleftrightarrow>
     length roles > 0 \<and> AuthName collectionName \<in> set authCollections"

subsection \<open>Pagination\<close>

text \<open>The argument of \<^verbatim>\<open>fetchInitialPage(options = {})\<close>.\<close>

record 'f fetch_options =
  fo_pageSize :: "nat option"
  fo_filters :: "'f option"
  fo_orderBy :: "sort_config option"

text \<open>\<^verbatim>\<open>a || b\<close> on objects and arrays, which are truthy whenever they are there, and on
  page sizes, where \<^verbatim>\<open>undefined\<close> and \<open>0\<close> are falsy.\<close>

definition obj_or :: "'a option \<Rightarrow> 'a option \<Rightarrow> 'a option" where
  "obj_or a b = (case a of Some x \<Rightarrow> Some x | None \<Rightarrow> b)"

definition num_or :: "nat option \<Rightarrow> nat option \<Rightarrow> nat option" where
  "num_or a b = (case a of Some n \<Rightarrow> if n = 0 then b else Some n | None \<Rightarrow> b)"

text \<open>The sort constraint: \<^verbatim>\<open>if (sortConfig && sortConfig.field)\<close>, with the direction
  defaulting to \<^verbatim>\<open>asc\<close>.\<close>

definition order_constraints :: "sort_config option \<Rightarrow> query_constraint list" where
  "order_constraints sortConfig =
     (case sortConfig of
        None \<Rightarrow> []
      | Some c \<Rightarrow>
          if sc_field c \<noteq> []
          then [OrderBy (sc_field c)
                  (case sc_direction c of None \<Rightarrow> ''asc'' | Some d \<Rightarrow> if d = [] then ''asc'' else d)]
          else [])"

text \<open>\<^verbatim>\<open>snapshot.docs[snapshot.docs.length - 1] || null\<close>.\<close>

definition last_doc :: "snapshot_doc list \<Rightarrow> snapshot_doc option" where
  "last_doc docs = (if docs = [] then None else Some (last docs))"

text \<open>The basic generator: the filters are an object of field and value, each an
  equality constraint unless the value is \<^verbatim>\<open>undefined\<close>, \<^verbatim>\<open>null\<close> or the empty
  string.\<close>

definition where_constraints_basic :: "jsobject option \<Rightarrow> query_constraint list" where
  "where_constraints_basic filters =
     (case filters of
        None \<Rightarrow> []
      | Some entries \<Rightarrow>
          concat (map (\<lambda>(field, v).
                         if v \<noteq> JUndefined \<and> v \<noteq> JNull \<and> v \<noteq> JStr [] then [Where field ''=='' v] else [])
                      entries))"

definition requested_pageSize_basic :: "jsobject fetch_options \<Rightarrow> jsobject pinia_state \<Rightarrow> nat option" where
  "requested_pageSize_basic options st = num_or (fo_pageSize options) (cs_pageSize (st_coll st))"

definition initial_constraints_basic ::
  "jsobject fetch_options \<Rightarrow> jsobject pinia_state \<Rightarrow> query_constraint list" where
  "initial_constraints_basic options st =
     where_constraints_basic (obj_or (fo_filters options) (cs_filters (st_coll st))) @
     order_constraints (obj_or (fo_orderBy options) (cs_orderBy (st_coll st))) @
     [Limit (requested_pageSize_basic options st)]"

text \<open>The basic \<^verbatim>\<open>fetchInitialPage\<close>. The state of the collection is replaced once the
  documents are there; the count is asked for after that, and its failure leaves the new
  state in place.\<close>

definition fetchInitialPage_basic ::
  "'db firestore_env \<Rightarrow> 'db \<Rightarrow> jsobject fetch_options \<Rightarrow> jsobject pinia_state \<Rightarrow>
   js_error option \<times> jsobject pinia_state" where
  "fetchInitialPage_basic env db options st =
     (let st1 = st\<lparr> st_loading := True \<rparr>;
          filters = obj_or (fo_filters options) (cs_filters (st_coll st));
          sortConfig = obj_or (fo_orderBy options) (cs_orderBy (st_coll st));
          pageSize = requested_pageSize_basic options st
      in case getDocs env db (initial_constraints_basic options st) of
           Inl error \<Rightarrow> (Some error, (record_error error st1)\<lparr> st_loading := False \<rparr>)
         | Inr docs \<Rightarrow>
             (let st2 = st1\<lparr> st_coll := (st_coll st1)
                          \<lparr> cs_items := docs,
                            cs_lastVisible := last_doc docs,
                            cs_hasMore := (Some (length docs) = pageSize),
                            cs_filters := Some (case filters of None \<Rightarrow> [] | Some f \<Rightarrow> f),
                            cs_orderBy := obj_or sortConfig (cs_orderBy (st_coll st1)),
                            cs_pageSize := pageSize \<rparr> \<rparr>
              in case getCountFromServer env db [] of
                   Inl error \<Rightarrow> (Some error, (record_error error st2)\<lparr> st_loading := False \<rparr>)
                 | Inr n \<Rightarrow>
                     (None, st2\<lparr> st_coll := (st_coll st2)\<lparr> cs_total := Some n \<rparr>,
                                 st_loading := False \<rparr>)))"

definition next_constraints_basic :: "jsobject pinia_state \<Rightarrow> query_constraint list" where
  "next_constraints_basic st =
     where_constraints_basic (cs_filters (st_coll st)) @
     order_constraints (cs_orderBy (st_coll st)) @
     (case cs_lastVisible (st_coll st) of None \<Rightarrow> [] | Some d \<Rightarrow> [StartAfter d]) @
     [Limit (cs_pageSize (st_coll st))]"

text \<open>The basic \<^verbatim>\<open>fetchNextPage\<close>: nothing happens without a cursor or when
  \<^verbatim>\<open>hasMore\<close> is false.\<close>

definition fetchNextPage_basic ::
  "'db firestore_env \<Rightarrow> 'db \<Rightarrow> jsobject pinia_state \<Rightarrow> js_error option \<times> jsobject pinia_state" where
  "fetchNextPage_basic env db st =
     (if cs_lastVisible (st_coll st) = None \<or> \<not> cs_hasMore (st_coll st) then (None, st)
      else
        (let st1 = st\<lparr> st_loading := True \<rparr>
         in case getDocs env db (next_constraints_basic st) of
              Inl error \<Rightarrow> (Some error, (record_error error st1)\<lparr> st_loading := False \<rparr>)
            | Inr docs \<Rightarrow>
                (None, st1\<lparr> st_coll := (st_coll st1)
                             \<lparr> cs_items := cs_items (st_coll st1) @ docs,
                               cs_lastVisible := last_doc docs,
                               cs_hasMore := (Some (length docs) = cs_pageSize (st_coll st1)) \<rparr>,
                            st_loading := False \<rparr>)))"

text \<open>The advanced generator: the filters are a list of field, operator and value, and
  \<^verbatim>\<open>buildWhereClause\<close> pushes one constraint for each, skips an empty value, and throws
  on an operator it does not know or on a membership operator without an array.\<close>

record filter_spec =
  f_field :: string
  f_operator :: string
  f_value :: jsval

definition buildWhereClause ::
  "query_constraint list \<Rightarrow> filter_spec \<Rightarrow> js_error + query_constraint list" where
  "buildWhereClause constraints flt =
     (if f_value flt = JUndefined \<or> f_value flt = JNull \<or> f_value flt = JStr [] then Inr constraints
      else if f_operator flt \<in> set [''=='', ''!='', ''<'', ''<='', ''>'', ''>='', ''array-contains'']
        then Inr (constraints @ [Where (f_field flt) (f_operator flt) (f_value flt)])
      else if f_operator flt \<in> set [''array-contains-any'', ''in'', ''not-in'']
        then (if \<not> isArray (f_value flt)
              then Inl (Error (''Value for '' @ [CHR 0x27] @ f_operator flt @ [CHR 0x27] @
                               '' operator must be an array.''))
              else Inr (constraints @ [Where (f_field flt) (f_operator flt) (f_value flt)]))
      else Inl (Error (''Unsupported filter operator: '' @ f_operator flt)))"

text \<open>\<^verbatim>\<open>for (const filter of filters) buildWhereClause(constraints, filter)\<close>.\<close>

fun where_loop :: "filter_spec list \<Rightarrow> query_constraint list \<Rightarrow> js_error + query_constraint list" where
  "where_loop [] constraints = Inr constraints"
| "where_loop (flt # rest) constraints =
     (case buildWhereClause constraints flt of
        Inl e \<Rightarrow> Inl e
      | Inr constraints' \<Rightarrow> where_loop rest constraints')"

definition or_list :: "'a list option \<Rightarrow> 'a list" where
  "or_list a = (case a of None \<Rightarrow> [] | Some xs \<Rightarrow> xs)"

definition requested_pageSize_adv ::
  "filter_spec list fetch_options \<Rightarrow> filter_spec list pinia_state \<Rightarrow> nat option" where
  "requested_pageSize_adv options st =
     num_or (num_or (fo_pageSize options) (cs_pageSize (st_coll st))) (Some 10)"

definition initial_constraints_adv ::
  "filter_spec list fetch_options \<Rightarrow> filter_spec list pinia_state \<Rightarrow> js_error + query_constraint list" where
  "initial_constraints_adv options st =
     (case where_loop (or_list (obj_or (fo_filters options) (cs_filters (st_coll st)))) [] of
        Inl e \<Rightarrow> Inl e
      | Inr constraints \<Rightarrow>
          Inr (constraints @
               order_constraints (obj_or (fo_orderBy options) (cs_orderBy (st_coll st))) @
               [Limit (requested_pageSize_adv options st)]))"

text \<open>The advanced \<^verbatim>\<open>fetchInitialPage\<close>, \<open>None\<close> when the module does not parse; the
  count is asked of the same query.\<close>

definition fetchInitialPage_adv ::
  "string list \<Rightarrow> bool \<Rightarrow> 'db firestore_env \<Rightarrow> 'db \<Rightarrow> filter_spec list fetch_options \<Rightarrow>
   filter_spec list pinia_state \<Rightarrow> (js_error option \<times> filter_spec list pinia_state) option" where
  "fetchInitialPage_adv roles activityLoggingEnabled env db options st =
     (if adv_module_parses roles activityLoggingEnabled then
        Some
          (let st1 = st\<lparr> st_loading := True \<rparr>;
               filters = or_list (obj_or (fo_filters options) (cs_filters (st_coll st)));
               sortConfig = obj_or (fo_orderBy options) (cs_orderBy (st_coll st));
               pageSize = requested_pageSize_adv options st;
               failed = (\<lambda>error s. (Some error, (record_error error s)\<lparr> st_loading := False \<rparr>))
           in case initial_constraints_adv options st of
                Inl error \<Rightarrow> failed error st1
              | Inr q \<Rightarrow>
                  (case getDocs env db q of
                     Inl error \<Rightarrow> failed error st1
                   | Inr docs \<Rightarrow>
                       (let st2 = st1\<lparr> st_coll := (st_coll st1)
                                    \<lparr> cs_items := docs,
                                      cs_lastVisible := last_doc docs,
                                      cs_hasMore := (Some (length docs) = pageSize),
                                      cs_filters := Some filters,
                                      cs_orderBy := sortConfig,
                                      cs_pageSize := pageSize \<rparr> \<rparr>
                        in case getCountFromServer env db q of
                             Inl error \<Rightarrow> failed error st2
                           | Inr n \<Rightarrow>
                               (None, st2\<lparr> st_coll := (st_coll st2)\<lparr> cs_total := Some n \<rparr>,
                                           st_loading := False \<rparr>))))
      else None)"

definition next_constraints_adv :: "filter_spec list pinia_state \<Rightarrow> js_error + query_constraint list" where
  "next_constraints_adv st =
     (case where_loop (or_list (cs_filters (st_coll st))) [] of
        Inl e \<Rightarrow> Inl e
      | Inr constraints \<Rightarrow>
          Inr (constraints @
               order_constraints (cs_orderBy (st_coll st)) @
               (case cs_lastVisible (st_coll st) of None \<Rightarrow> [] | Some d \<Rightarrow> [StartAfter d]) @
               [Limit (cs_pageSize (st_coll st))]))"

text \<open>The advanced \<^verbatim>\<open>fetchNextPage\<close>, \<open>None\<close> when the module does not parse.\<close>

definition fetchNextPage_adv ::
  "string list \<Rightarrow> bool \<Rightarrow> 'db firestore_env \<Rightarrow> 'db \<Rightarrow> filter_spec list pinia_state \<Rightarrow>
   (js_error option \<times> filter_spec list pinia_state) option" where
  "fetchNextPage_adv roles activityLoggingEnabled env db st =
     (if adv_module_parses roles activityLoggingEnabled then
        Some
          (if cs_lastVisible (st_coll st) = None \<or> \<not> cs_hasMore (st_coll st) then (None, st)
           else
             (let st1 = st\<lparr> st_loading := True \<rparr>;
                  failed = (\<lambda>error. (Some error, (record_error error st1)\<lparr> st_loading := False \<rparr>))
              in case next_constraints_adv st of
                   Inl error \<Rightarrow> failed error
                 | Inr q \<Rightarrow>
                     (case getDocs env db q of
                        Inl error \<Rightarrow> failed error
                      | Inr docs \<Rightarrow>
                          (None, st1\<lparr> st_coll := (st_coll st1)
                                       \<lparr> cs_items := cs_items (st_coll st1) @ docs,
                                         cs_lastVisible := last_doc docs,
                                         cs_hasMore := (Some (length docs) = cs_pageSize (st_coll st1)) \<rparr>,
                                      st_loading := False \<rparr>))))
      else None)"

subsection \<open>A sample store\<close>

text \<open>A store that is the list of the documents of the collection. It answers a query by
  applying the constraints in their order: an equality filter on a field, a cursor, a
  limit; it does not sort.\<close>

fun apply_constraint :: "query_constraint \<Rightarrow> snapshot_doc list \<Rightarrow> snapshot_doc list" where
  "apply_constraint (Where field op v) ds =
     (if op = ''=='' then filter (\<lambda>d. get_prop (d_data (snd d)) field = v) ds else ds)"
| "apply_constraint (OrderBy field dir) ds = ds"
| "apply_constraint (Limit n) ds = (case n of None \<Rightarrow> ds | Some k \<Rightarrow> take k ds)"
| "apply_constraint (StartAfter d) ds = drop 1 (dropWhile (\<lambda>x. x \<noteq> d) ds)"

fun run_query :: "query_constraint list \<Rightarrow> snapshot_doc list \<Rightarrow> snapshot_doc list" where
  "run_query [] ds = ds"
| "run_query (c # cs) ds = run_query cs (apply_constraint c ds)"

definition list_store :: "snapshot_doc list firestore_env" where
  "list_store =
     \<lparr> getDoc = (\<lambda>db ident. Inr (map_of db ident)),
       updateDoc_roles = (\<lambda>db ident rs.
          if ident \<in> set (map fst db)
          then Inr (map (\<lambda>(k, d). if k = ident then (k, d\<lparr> d_roles := Some rs \<rparr>) else (k, d)) db)
          else Inl (Error ''No document to update'')),
       getDocs = (\<lambda>db q. Inr (run_query q db)),
       getCountFromServer = (\<lambda>db q. Inr (length db)) \<rparr>"

text \<open>The same store when it cannot be reached.\<close>

definition offline_store :: "snapshot_doc list firestore_env" where
  "offline_store =
     \<lparr> getDoc = (\<lambda>db ident. Inl (Error ''unavailable'')),
       updateDoc_roles = (\<lambda>db ident rs. Inl (Error ''unavailable'')),
       getDocs = (\<lambda>db q. Inl (Error ''unavailable'')),
       getCountFromServer = (\<lambda>db q. Inl (Error ''unavailable'')) \<rparr>"

definition sample_users :: "snapshot_doc list" where
  "sample_users =
     [(''u1'', \<lparr> d_roles = Some [''user''], d_data = [(''name'', JStr ''Ann'')] \<rparr>),
      (''u2'', \<lparr> d_roles = None, d_data = [(''name'', JStr ''Bob'')] \<rparr>)]"

definition admin_user :: user where
  "admin_user = \<lparr> u_uid = Some ''root'', u_roles = Some [''admin''] \<rparr>"

definition fresh_coll :: "'f collection_state" where
  "fresh_coll =
     \<lparr> cs_items = [], cs_lastVisible = None, cs_hasMore = False, cs_filters = None,
       cs_orderBy = None, cs_pageSize = Some 10, cs_total = None \<rparr>"

definition fresh_state_basic :: "jsobject pinia_state" where
  "fresh_state_basic =
     \<lparr> st_currentUser = Some admin_user, st_error = None, st_loading = False, st_coll = fresh_coll \<rparr>"

definition fresh_state_adv :: "filter_spec list pinia_state" where
  "fresh_state_adv =
     \<lparr> st_currentUser = Some admin_user, st_error = None, st_loading = False, st_coll = fresh_coll \<rparr>"

definition page_of_two_basic :: "jsobject fetch_options" where
  "page_of_two_basic = \<lparr> fo_pageSize = Some 2, fo_filters = None, fo_orderBy = None \<rparr>"

definition page_of_two_adv :: "filter_spec list fetch_options" where
  "page_of_two_adv = \<lparr> fo_pageSize = Some 2, fo_filters = None, fo_orderBy = None \<rparr>"


section \<open>Properties of the naming functions\<close>

text \<open>Character level: the two case mappings on the character codes.\<close>


lemma of_char_lower_char:
  "(of_char (lower_char c) :: nat) = (if is_upper c then of_char c + 32 else of_char c)"
  by (simp add: lower_char_def is_upper_def)

lemma of_char_upper_char:
  "(of_char (upper_char c) :: nat) = (if is_lower c then of_char c - 32 else of_char c)"
proof (cases "is_lower c")
  case True
  then have "(of_char c - 32 :: nat) < 256" unfolding is_lower_def by arith
  then have "(of_char c - 32 :: nat) mod 256 = of_char c - 32" by simp
  then show ?thesis using True by (simp add: upper_char_def)
next
  case False
  then show ?thesis by (simp add: upper_char_def)
qed

lemma lower_char_not_upper: "\<not> is_upper (lower_char c)"
  by (simp add: is_upper_def[of "lower_char c"] of_char_lower_char) (simp add: is_upper_def)

lemma upper_char_not_lower: "\<not> is_lower (upper_char c)"
proof (cases "is_lower c")
  case True
  then have "(of_char (upper_char c) :: nat) = of_char c - 32" by (simp add: of_char_upper_char)
  moreover have "(of_char c - 32 :: nat) < 97" using True unfolding is_lower_def by arith
  ultimately show ?thesis unfolding is_lower_def[of "upper_char c"] by simp
next
  case False
  then show ?thesis by (simp add: upper_char_def)
qed

lemma lower_char_idem: "lower_char (lower_char c) = lower_char c"
  using lower_char_not_upper[of c] by (simp add: lower_char_def[of "lower_char c"])

lemma lower_upper_char: "\<not> is_upper c \<Longrightarrow> lower_char (upper_char c) = c"
proof -
  assume nu: "\<not> is_upper c"
  have "(of_char (lower_char (upper_char c)) :: nat) = of_char c"
    using nu by (auto simp: of_char_lower_char of_char_upper_char is_upper_def is_lower_def)
  then show ?thesis by (rule of_char_eqI)
qed

lemma is_sep_lower_char: "is_sep (lower_char c) = is_sep c"
  by (auto simp: is_sep_def is_ws_def of_char_lower_char is_upper_def)

lemma is_sep_upper_char: "is_sep (upper_char c) = is_sep c"
  by (auto simp: is_sep_def is_ws_def of_char_upper_char is_lower_def)

lemma is_ws_lower_char: "is_ws (lower_char c) = is_ws c"
  by (auto simp: is_ws_def of_char_lower_char is_upper_def)

lemma is_ascii_lower_char: "is_ascii (lower_char c) = is_ascii c"
  by (auto simp: is_ascii_def of_char_lower_char is_upper_def)

lemma split_scan_sepfree:
  "sepfree cur \<Longrightarrow> \<forall>w \<in> set (split_scan b cur s). sepfree w"
proof (induction s arbitrary: b cur)
  case Nil
  then show ?case by simp
next
  case (Cons a s)
  show ?case
  proof (cases "is_sep a")
    case True
    have "sepfree []" by (simp add: sepfree_def)
    then show ?thesis using True Cons.IH[of cur True] Cons.IH[of "[]" True] Cons.prems by simp
  next
    case False
    then have "sepfree (cur @ [a])" using Cons.prems by (simp add: sepfree_def)
    then show ?thesis using False Cons.IH[of "cur @ [a]" False] by simp
  qed
qed

lemma split_scan_single: "sepfree s \<Longrightarrow> split_scan b cur s = [cur @ s]"
  by (induction s arbitrary: b cur) (auto simp: sepfree_def)

lemma sepfree_capitalize: "sepfree w \<Longrightarrow> sepfree (capitalize w)"
  by (cases w) (auto simp: sepfree_def capitalize_def toUpperCase_def is_sep_upper_char)

lemma trim_no_ws: "\<forall>c \<in> set s. \<not> is_ws c \<Longrightarrow> trim s = s"
proof -
  assume ws: "\<forall>c \<in> set s. \<not> is_ws c"
  have 1: "dropWhile is_ws s = s" using ws by (cases s) auto
  have "\<forall>c \<in> set (rev s). \<not> is_ws c" using ws by simp
  then have 2: "dropWhile is_ws (rev s) = rev s" by (cases "rev s") auto
  show ?thesis by (simp add: trim_def trimStart_def trimEnd_def 1 2)
qed

lemma trim_sepfree: "sepfree s \<Longrightarrow> trim s = s"
  by (rule trim_no_ws) (auto simp: sepfree_def is_sep_def)

lemma sepfree_toLowerCase: "sepfree (toLowerCase s) = sepfree s"
  by (simp add: sepfree_def toLowerCase_def is_sep_lower_char)

lemma toCamelCase_sepfree: "sepfree (toCamelCase x)"
proof -
  let ?ts = "split_seps (toLowerCase (trim x))"
  have ts: "\<forall>w \<in> set ?ts. sepfree w"
    unfolding split_seps_def by (rule split_scan_sepfree) (simp add: sepfree_def)
  have "\<forall>p \<in> set (enumerate 0 ?ts). sepfree (case p of (i, w) \<Rightarrow> if i = 0 then w else capitalize w)"
    using ts by (auto simp: in_set_enumerate_eq sepfree_capitalize)
  then show ?thesis
    unfolding toCamelCase_def sepfree_def by auto
qed

lemma toPascalCase_sepfree: "sepfree (toPascalCase x)"
proof -
  let ?ts = "split_seps (toLowerCase (trim x))"
  have ts: "\<forall>w \<in> set ?ts. sepfree w"
    unfolding split_seps_def by (rule split_scan_sepfree) (simp add: sepfree_def)
  then show ?thesis
    unfolding toPascalCase_def sepfree_def using sepfree_capitalize by (auto simp: sepfree_def)
qed

lemma toCamelCase_single: "sepfree y \<Longrightarrow> toCamelCase y = toLowerCase y"
  by (simp add: toCamelCase_def trim_sepfree split_seps_def split_scan_single sepfree_toLowerCase)

lemma toPascalCase_single: "sepfree y \<Longrightarrow> toPascalCase y = capitalize (toLowerCase y)"
  by (simp add: toPascalCase_def trim_sepfree split_seps_def split_scan_single sepfree_toLowerCase)

lemma toLowerCase_idem: "toLowerCase (toLowerCase s) = toLowerCase s"
  by (simp add: toLowerCase_def lower_char_idem)

lemma capitalize_lower_idem:
  "capitalize (toLowerCase (capitalize (toLowerCase s))) = capitalize (toLowerCase s)"
  by (cases s) (simp_all add: capitalize_def toLowerCase_def toUpperCase_def
      lower_upper_char lower_char_not_upper lower_char_idem)

lemma capitalize_hd: "capitalize w \<noteq> [] \<Longrightarrow> \<not> is_lower (hd (capitalize w))"
  by (cases w) (simp_all add: capitalize_def toUpperCase_def upper_char_not_lower)

lemma concat_capitalize_hd:
  "concat (map capitalize ws) \<noteq> [] \<Longrightarrow> \<not> is_lower (hd (concat (map capitalize ws)))"
proof (induction ws)
  case Nil then show ?case by simp
next
  case (Cons w ws)
  show ?case
  proof (cases "capitalize w = []")
    case True with Cons show ?thesis by simp
  next
    case False then show ?thesis using capitalize_hd[of w] by simp
  qed
qed

lemma trimEnd_prefix: "\<exists>zs. s = trimEnd s @ zs"
proof -
  have "rev s = takeWhile is_ws (rev s) @ dropWhile is_ws (rev s)" by simp
  then have "rev (rev s) = rev (takeWhile is_ws (rev s) @ dropWhile is_ws (rev s))"
    by (rule arg_cong)
  then have "s = trimEnd s @ rev (takeWhile is_ws (rev s))"
    unfolding trimEnd_def by (simp only: rev_append rev_rev_ident)
  then show ?thesis ..
qed

lemma hd_trim: "trim s \<noteq> [] \<Longrightarrow> hd (trim s) = hd (trimStart s) \<and> \<not> is_ws (hd (trim s))"
proof -
  assume ne: "trim s \<noteq> []"
  obtain zs where z: "trimStart s = trim s @ zs" using trimEnd_prefix[of "trimStart s"] by (auto simp: trim_def)
  then have h: "hd (trim s) = hd (trimStart s)" using ne by simp
  have "trimStart s \<noteq> []" using z ne by auto
  then have "\<not> is_ws (hd (trimStart s))" unfolding trimStart_def by (simp add: hd_dropWhile)
  with h show ?thesis by simp
qed

lemma split_scan_hd:
  "cur \<noteq> [] \<Longrightarrow> \<exists>w ws. split_scan b cur s = w # ws \<and> w \<noteq> [] \<and> hd w = hd cur"
proof (induction s arbitrary: b cur)
  case Nil
  then show ?case by simp
next
  case (Cons a s)
  show ?case
  proof (cases "is_sep a")
    case True
    then show ?thesis using Cons.prems Cons.IH[of cur True] by (cases b) auto
  next
    case False
    then show ?thesis using Cons.IH[of "cur @ [a]" False] Cons.prems by simp
  qed
qed

lemma enumerate_concat_Cons:
  "concat (map (\<lambda>(i, w). if i = 0 then w else capitalize w) (enumerate 0 (w # ws))) =
   w @ concat (map capitalize ws)"
proof -
  have "map (\<lambda>(i, w). if i = 0 then w else capitalize w) (enumerate (Suc 0) ws) = map capitalize ws"
    by (rule nth_equalityI) (simp_all add: nth_enumerate_eq)
  then show ?thesis by simp
qed

lemma toCamelCase_hd:
  assumes "toCamelCase x \<noteq> []" "\<not> is_sep (hd (trim x))"
  shows "\<not> is_upper (hd (toCamelCase x))"
proof -
  let ?s = "toLowerCase (trim x)"
  have tne: "trim x \<noteq> []"
  proof
    assume "trim x = []"
    then have "toCamelCase x = []" by (simp add: toCamelCase_def toLowerCase_def split_seps_def)
    with assms show False by simp
  qed
  then obtain c cs where s: "?s = lower_char c # cs" and c: "c = hd (trim x)"
    by (cases "trim x") (auto simp: toLowerCase_def)
  have nsep: "\<not> is_sep (lower_char c)" using assms c by (simp add: is_sep_lower_char)
  obtain w ws where w: "split_scan False [lower_char c] cs = w # ws" "w \<noteq> []" "hd w = lower_char c"
    using split_scan_hd[of "[lower_char c]" False cs] by auto
  have "split_seps ?s = w # ws" using s nsep w by (simp add: split_seps_def)
  then have "toCamelCase x = w @ concat (map capitalize ws)"
    unfolding toCamelCase_def by (simp only: enumerate_concat_Cons)
  then have "hd (toCamelCase x) = lower_char c" using w by simp
  then show ?thesis by (simp add: lower_char_not_upper)
qed


text \<open>
  Claim C5 (naming functions), as the code has it. \<^verbatim>\<open>toCamelCase\<close> and
  \<^verbatim>\<open>toPascalCase\<close> are functions of their argument alone. Both lower-case the whole
  name before splitting it, so a second application undoes the capitals the first one
  introduced: on an ASCII name \<open>x\<close>, \<open>toCamelCase (toCamelCase x)\<close> is the lower-cased
  \<open>toCamelCase x\<close> and \<open>toPascalCase (toPascalCase x)\<close> is the capitalised lower-cased
  \<open>toPascalCase x\<close>. On a name of a single token (no space, hyphen or underscore) both
  are idempotent. The first character of a non-empty \<open>toPascalCase x\<close> is never a
  lower-case letter, and the first character of a non-empty \<open>toCamelCase x\<close> is never an
  upper-case letter when the trimmed name does not start with a separator.
\<close>

theorem naming_second_application:
  assumes "list_all is_ascii x"
  shows "toCamelCase (toCamelCase x) = toLowerCase (toCamelCase x) \<and>
         toPascalCase (toPascalCase x) = capitalize (toLowerCase (toPascalCase x)) \<and>
         (sepfree x \<longrightarrow> toCamelCase (toCamelCase x) = toCamelCase x \<and>
                       toPascalCase (toPascalCase x) = toPascalCase x) \<and>
         (toPascalCase x \<noteq> [] \<longrightarrow> \<not> is_lower (hd (toPascalCase x))) \<and>
         (toCamelCase x \<noteq> [] \<and> \<not> is_sep (hd (trim x)) \<longrightarrow> \<not> is_upper (hd (toCamelCase x)))"
proof -
  have a: "toCamelCase (toCamelCase x) = toLowerCase (toCamelCase x)"
    by (rule toCamelCase_single) (rule toCamelCase_sepfree)
  have b: "toPascalCase (toPascalCase x) = capitalize (toLowerCase (toPascalCase x))"
    by (rule toPascalCase_single) (rule toPascalCase_sepfree)
  have c: "toCamelCase (toCamelCase x) = toCamelCase x \<and> toPascalCase (toPascalCase x) = toPascalCase x"
    if "sepfree x"
  proof -
    have "toCamelCase x = toLowerCase x" using that by (rule toCamelCase_single)
    moreover have "toPascalCase x = capitalize (toLowerCase x)" using that by (rule toPascalCase_single)
    ultimately show ?thesis
      using a b by (simp add: toLowerCase_idem capitalize_lower_idem)
  qed
  have d: "\<not> is_lower (hd (toPascalCase x))" if "toPascalCase x \<noteq> []"
    using that unfolding toPascalCase_def by (rule concat_capitalize_hd)
  have e: "\<not> is_upper (hd (toCamelCase x))" if "toCamelCase x \<noteq> [] \<and> \<not> is_sep (hd (trim x))"
    using that toCamelCase_hd by blast
  show ?thesis using a b c d e by blast
qed

theorem naming_second_application_witness:
  "list_all is_ascii ''users'' \<and> sepfree ''users'' \<and> toPascalCase ''users'' \<noteq> [] \<and>
   toCamelCase ''users'' \<noteq> [] \<and> \<not> is_sep (hd (trim ''users'')) \<and>
   toCamelCase (toCamelCase ''users'') = toCamelCase ''users'' \<and>
   toPascalCase (toPascalCase ''users'') = toPascalCase ''users'' \<and>
   \<not> is_lower (hd (toPascalCase ''users'')) \<and> \<not> is_upper (hd (toCamelCase ''users''))"
proof -
  have h1: "list_all is_ascii ''users''" by code_simp
  have h2: "sepfree ''users''" by code_simp
  have h3: "toPascalCase ''users'' \<noteq> []" by code_simp
  have h4: "toCamelCase ''users'' \<noteq> [] \<and> \<not> is_sep (hd (trim ''users''))" by code_simp
  show ?thesis using naming_second_application [OF h1] h1 h2 h3 h4 by blast
qed

text \<open>
  The claim as the specification states it fails: neither function is idempotent on a
  name of two tokens, a leading separator makes \<open>toCamelCase\<close> start with a capital, and
  a leading digit is kept by \<open>toPascalCase\<close>.
\<close>

theorem naming_idempotent_counterexample:
  "toCamelCase ''user profiles'' = ''userProfiles'' \<and>
   toCamelCase (toCamelCase ''user profiles'') = ''userprofiles'' \<and>
   toPascalCase ''user profiles'' = ''UserProfiles'' \<and>
   toPascalCase (toPascalCase ''user profiles'') = ''Userprofiles'' \<and>
   toCamelCase ''_users'' = ''Users'' \<and>
   toPascalCase ''1st'' = ''1st''"
  by code_simp

section \<open>Properties of the generated validator\<close>

text \<open>The three lists the generator collects, in closed form.\<close>

lemma field_loop_required:
  "requiredFieldChecks (field_loop fs m) = requiredFieldChecks m @ map fst fs"
  by (induction fs m rule: field_loop.induct) simp_all

lemma field_loop_typeChecks:
  "typeChecks (field_loop fs m) =
   typeChecks m @ filter (\<lambda>ft. has_typeCheckCondition (snd ft)) fs"
  by (induction fs m rule: field_loop.induct) simp_all

lemma field_loop_emailFields:
  "emailFields (field_loop fs m) =
   emailFields m @ map fst (filter (\<lambda>ft. snd ft = ''email'') fs)"
  by (induction fs m rule: field_loop.induct) simp_all

lemma generated_required: "requiredFieldChecks (generateValidationModule fs) = map fst fs"
  by (simp add: generateValidationModule_def field_loop_required)

lemma generated_typeChecks:
  "typeChecks (generateValidationModule fs) = filter (\<lambda>ft. has_typeCheckCondition (snd ft)) fs"
  by (simp add: generateValidationModule_def field_loop_typeChecks)

lemma generated_emailFields:
  "emailFields (generateValidationModule fs) = map fst (filter (\<lambda>ft. snd ft = ''email'') fs)"
  by (simp add: generateValidationModule_def field_loop_emailFields)

text \<open>The text of a type message ends with a full stop, so it is never a string
  literal, and a module parses exactly when it has no type check.\<close>

lemma typeErrorMessage_last: "last (typeErrorMessage f t) = CHR ''.''"
  by (simp add: typeErrorMessage_def)

lemma typeErrorMessage_not_literal: "\<not> is_string_literal (typeErrorMessage f t)"
  by (simp add: is_string_literal_def typeErrorMessage_last)

lemma validator_parses_iff: "validator_parses m \<longleftrightarrow> typeChecks m = []"
  by (cases "typeChecks m") (simp_all add: validator_parses_def typeErrorMessage_not_literal)

lemma typed_field_no_validator:
  assumes "(f, t) \<in> set fieldMap" and "has_typeCheckCondition t"
  shows "validate env (generateValidationModule fieldMap) data0 = None"
proof -
  have "(f, t) \<in> set (typeChecks (generateValidationModule fieldMap))"
    using assms by (simp add: generated_typeChecks)
  then have "typeChecks (generateValidationModule fieldMap) \<noteq> []" by auto
  then show ?thesis by (simp add: validate_def validator_parses_iff)
qed

text \<open>An absent, \<^verbatim>\<open>null\<close> or blank value of a number field: the operand
  \<^verbatim>\<open>isNaN(data.f)\<close> stands outside the guard, so an absent field gets the type error on
  top of the required error in what the body computes.\<close>

lemma absent_number_field:
  assumes "get_prop data f = JUndefined"
  shows "required_check data f = [Required f]"
    and "type_check env data (f, ''number'') = [TypeMismatch f ''number'']"
  using assms by (simp_all add: required_check_def type_check_def escaping_operands_def)

text \<open>
  Claim C4 (required before type): the code does not do this. For the products collection
  (a title, a price of type number, a stock flag) and an input without price, the body of
  the generated validator reports the price twice, as required and as not a number: the
  condition of the type check is emitted as
  \<^verbatim>\<open>guard && typeof data.price !== 'number' || isNaN(data.price)\<close>, and the last operand
  escapes the guard. And the module that holds this body does not parse, because the type
  message is the unquoted argument of \<^verbatim>\<open>push\<close>: there is no validator to report anything.
  A collection whose only field has an unknown type tag has no type check; its module
  parses and reports the missing field once.
\<close>

theorem required_and_type_error_together:
  "get_prop (or_empty (Some products_input)) ''price'' = JUndefined \<and>
   body_checks offline_env (generateValidationModule products_fields) (Some products_input) =
     Inr ([Required ''price'', TypeMismatch ''price'' ''number''], []) \<and>
   validator_parses (generateValidationModule products_fields) = False \<and>
   validate offline_env (generateValidationModule products_fields) (Some products_input) = None \<and>
   validate offline_env (generateValidationModule notes_fields) (Some []) =
     Some (Inr ([Required ''body''], []))"
  by code_simp

text \<open>
  Claim C9 (empty array is blank): the code does not get as far. For a collection with a
  field of type array and the empty array as its value, the required check of the body
  fires, since \<^verbatim>\<open>String([])\<close> is the empty string, and the type check of the body does
  not; but the field has a type check, whose message is the unquoted argument of
  \<^verbatim>\<open>push\<close>, so the generated module does not parse and there is no validator to report
  the field.
\<close>

theorem empty_array_module_unparsed:
  "js_String (JArr []) = [] \<and>
   body_checks offline_env (generateValidationModule posts_fields) (Some posts_input) =
     Inr ([Required ''tags''], []) \<and>
   validator_parses (generateValidationModule posts_fields) = False \<and>
   validate offline_env (generateValidationModule posts_fields) (Some posts_input) = None"
  by code_simp

text \<open>
  Claim C7 (best-effort existence check): the code does not get as far. For the contacts
  collection (a name, an address of type email) and a well-formed address, the body of
  the generated validator logs the failure of the sign-in service and reports nothing;
  when \<^verbatim>\<open>getAuth()\<close> throws, which happens outside the \<^verbatim>\<open>try\<close>, the body throws. But
  the e-mail field has a type check, whose message is the unquoted argument of
  \<^verbatim>\<open>push\<close>, so the generated module does not parse and there is no validator to run.
\<close>

theorem email_module_unparsed:
  "email_format ''ann@example.org'' \<and>
   emailFields (generateValidationModule contacts_fields) = [''email''] \<and>
   body_checks offline_env (generateValidationModule contacts_fields) (Some contacts_input) =
     Inr ([], [(''email'', Error ''auth/network-request-failed'')]) \<and>
   body_checks no_app_env (generateValidationModule contacts_fields) (Some contacts_input) =
     Inl (Error ''app/no-app'') \<and>
   validator_parses (generateValidationModule contacts_fields) = False \<and>
   validate offline_env (generateValidationModule contacts_fields) (Some contacts_input) = None"
  by code_simp

section \<open>Properties of the route table\<close>

lemma collection_loop_concat:
  "collection_loop cs routes = routes @ concat (map (\<lambda>c. [create_route c, edit_route c]) cs)"
  by (induction cs arbitrary: routes) (simp_all add: push_def)

text \<open>The array as one concatenation of its five blocks.\<close>

lemma routes_blocks:
  "generateRouter_routes a =
     [if truthy (enableLanding a) then landing_route else home_route] @
     (if truthy (enableAuth a) \<and> truthy (enableAuthViews a) then auth_routes else []) @
     (if truthy (enableAdmin a) then admin_routes (enableRoles a) else []) @
     concat (map (\<lambda>c. [create_route c, edit_route c]) (collections_of a)) @
     [catch_all_route]"
  by (cases "collections a")
     (simp_all add: generateRouter_routes_def Let_def push_def collection_loop_concat
        collections_of_def)

lemma home_components:
  "r_component landing_route =
     Some (''() => import('' @ [CHR 0x27] @ ''@/views/LandingPage.vue'' @ [CHR 0x27] @ '')'')"
  "r_component home_route =
     Some (''() => import('' @ [CHR 0x27] @ ''@/views/HomeView.vue'' @ [CHR 0x27] @ '')'')"
  by (simp_all add: landing_route_def home_route_def view_route_def
        getStandardComponentLazyImportPath_def lazy_import_def)

lemma auth_entries:
  "map entry auth_routes =
     [(''/login'', Some ''Login'', None), (''/register'', Some ''Register'', None),
      (''/forgot-password'', Some ''ForgotPassword'', None),
      (''/reset-password'', Some ''ResetPassword'', None),
      (''/verify-email'', Some ''VerifyEmail'', None),
      (''/unauthorized'', Some ''Unauthorized'', None),
      (''/account'', Some ''Account'', None), (''/settings'', Some ''Settings'', None)]"
  by (simp add: auth_routes_def view_route_def)

lemma admin_entries:
  "map entry (admin_routes roles) =
     [(''/admin/dashboard'', Some ''AdminDashboard'', None),
      (''/admin/users'', Some ''AdminUsers'', None)]"
  by (simp add: admin_routes_def view_route_def)

lemma collection_entries:
  "map entry (concat (map (\<lambda>c. [create_route c, edit_route c]) cs)) =
   concat (map (\<lambda>c. [(''/'' @ toCamelCase (c_name c) @ ''/create'',
                         Some (toPascalCase (c_name c) @ ''Create''), None),
                        (''/'' @ toCamelCase (c_name c) @ ''/edit/:id'',
                         Some (toPascalCase (c_name c) @ ''Edit''), None)]) cs)"
  by (induction cs) (simp_all add: create_route_def edit_route_def Let_def)

lemma catch_all_entry: "entry catch_all_route = (''/:pathMatch(.*)*'', None, Some ''/'')"
  by (simp add: catch_all_route_def)

lemma collection_paths:
  "filter (\<lambda>r. r_path r = ''/'') (concat (map (\<lambda>c. [create_route c, edit_route c]) cs)) = []"
  by (induction cs) (simp_all add: create_route_def edit_route_def Let_def)

text \<open>
  Claim C6 (order of the route table). For every answers object, the entries of the table,
  read as path, name and redirect, are: the entry \<open>/\<close> named \<open>Home\<close>; then the eight
  authentication entries, from \<open>/login\<close> to \<open>/settings\<close>, exactly when \<open>enableAuth\<close> and
  \<open>enableAuthViews\<close> are both \<open>true\<close>; then the two admin entries exactly when
  \<open>enableAdmin\<close> is \<open>true\<close>; then for each collection, in the order of the schema, the
  entries \<open>/<camel>/create\<close> and \<open>/<camel>/edit/:id\<close> with the names \<open><Pascal>Create\<close>
  and \<open><Pascal>Edit\<close>; then the catch-all entry, the only one that redirects, to \<open>/\<close>.
  The component of the first entry is the landing page when \<open>enableLanding\<close> is \<open>true\<close>
  and the home view otherwise, and exactly one entry has the path \<open>/\<close>.
\<close>

theorem route_table_order:
  "map (\<lambda>r. (r_path r, r_name r, r_redirect r)) (generateRouter_routes a) =
     [(''/'', Some ''Home'', None)] @
     (if enableAuth a = Some True \<and> enableAuthViews a = Some True
      then [(''/login'', Some ''Login'', None), (''/register'', Some ''Register'', None),
            (''/forgot-password'', Some ''ForgotPassword'', None),
            (''/reset-password'', Some ''ResetPassword'', None),
            (''/verify-email'', Some ''VerifyEmail'', None),
            (''/unauthorized'', Some ''Unauthorized'', None),
            (''/account'', Some ''Account'', None), (''/settings'', Some ''Settings'', None)]
      else []) @
     (if enableAdmin a = Some True
      then [(''/admin/dashboard'', Some ''AdminDashboard'', None),
            (''/admin/users'', Some ''AdminUsers'', None)]
      else []) @
     concat (map (\<lambda>c. [(''/'' @ toCamelCase (c_name c) @ ''/create'',
                           Some (toPascalCase (c_name c) @ ''Create''), None),
                          (''/'' @ toCamelCase (c_name c) @ ''/edit/:id'',
                           Some (toPascalCase (c_name c) @ ''Edit''), None)])
                 (case collections a of None \<Rightarrow> [] | Some cs \<Rightarrow> cs)) @
     [(''/:pathMatch(.*)*'', None, Some ''/'')] \<and>
   r_component (hd (generateRouter_routes a)) =
     Some (''() => import('' @ [CHR 0x27] @
           (if enableLanding a = Some True then ''@/views/LandingPage.vue''
            else ''@/views/HomeView.vue'') @ [CHR 0x27] @ '')'') \<and>
   length (filter (\<lambda>r. r_path r = ''/'') (generateRouter_routes a)) = 1"
proof -
  let ?home = "if truthy (enableLanding a) then landing_route else home_route"
  let ?auth = "if truthy (enableAuth a) \<and> truthy (enableAuthViews a) then auth_routes else []"
  let ?admin = "if truthy (enableAdmin a) then admin_routes (enableRoles a) else []"
  let ?colls = "concat (map (\<lambda>c. [create_route c, edit_route c]) (collections_of a))"
  have blocks: "generateRouter_routes a = [?home] @ ?auth @ ?admin @ ?colls @ [catch_all_route]"
    by (rule routes_blocks)
  have e0: "entry ?home = (''/'', Some ''Home'', None)"
    by (simp add: landing_route_def home_route_def view_route_def)
  have e1: "map entry ?auth =
      (if enableAuth a = Some True \<and> enableAuthViews a = Some True then map entry auth_routes
       else [])"
    by (simp add: truthy_def)
  have e2: "map entry ?admin =
      (if enableAdmin a = Some True then map entry (admin_routes (enableRoles a)) else [])"
    by (simp add: truthy_def)
  have cs: "collections_of a = (case collections a of None \<Rightarrow> [] | Some cs \<Rightarrow> cs)"
    by (simp add: collections_of_def)
  have entries: "map entry (generateRouter_routes a) =
      [entry ?home] @ map entry ?auth @ map entry ?admin @ map entry ?colls @
      [entry catch_all_route]"
    unfolding blocks by simp
  have first: "map entry (generateRouter_routes a) =
     [(''/'', Some ''Home'', None)] @
     (if enableAuth a = Some True \<and> enableAuthViews a = Some True
      then [(''/login'', Some ''Login'', None), (''/register'', Some ''Register'', None),
            (''/forgot-password'', Some ''ForgotPassword'', None),
            (''/reset-password'', Some ''ResetPassword'', None),
            (''/verify-email'', Some ''VerifyEmail'', None),
            (''/unauthorized'', Some ''Unauthorized'', None),
            (''/account'', Some ''Account'', None), (''/settings'', Some ''Settings'', None)]
      else []) @
     (if enableAdmin a = Some True
      then [(''/admin/dashboard'', Some ''AdminDashboard'', None),
            (''/admin/users'', Some ''AdminUsers'', None)]
      else []) @
     concat (map (\<lambda>c. [(''/'' @ toCamelCase (c_name c) @ ''/create'',
                           Some (toPascalCase (c_name c) @ ''Create''), None),
                          (''/'' @ toCamelCase (c_name c) @ ''/edit/:id'',
                           Some (toPascalCase (c_name c) @ ''Edit''), None)])
                 (case collections a of None \<Rightarrow> [] | Some cs \<Rightarrow> cs)) @
     [(''/:pathMatch(.*)*'', None, Some ''/'')]"
    unfolding entries e0 e1 e2 auth_entries admin_entries collection_entries catch_all_entry cs
    by (rule refl)
  have "hd (generateRouter_routes a) = ?home" unfolding blocks by simp
  then have second: "r_component (hd (generateRouter_routes a)) =
     Some (''() => import('' @ [CHR 0x27] @
           (if enableLanding a = Some True then ''@/views/LandingPage.vue''
            else ''@/views/HomeView.vue'') @ [CHR 0x27] @ '')'')"
    by (simp add: home_components truthy_def)
  have h: "r_path ?home = ''/''" using e0 by simp
  have f1: "filter (\<lambda>r. r_path r = ''/'') ?auth = []"
    by (simp add: auth_routes_def view_route_def)
  have f2: "filter (\<lambda>r. r_path r = ''/'') ?admin = []"
    by (simp add: admin_routes_def view_route_def)
  have f3: "filter (\<lambda>r. r_path r = ''/'') ?colls = []" by (rule collection_paths)
  have f4: "r_path catch_all_route \<noteq> ''/''" by (simp add: catch_all_route_def)
  have "filter (\<lambda>r. r_path r = ''/'') (generateRouter_routes a) = [?home]"
    unfolding blocks filter_append f1 f2 f3 using h f4 by simp
  then have third: "length (filter (\<lambda>r. r_path r = ''/'') (generateRouter_routes a)) = 1"
    by simp
  from first second third show ?thesis by blast
qed

text \<open>The table of a project with every flag set and the collections \<open>user profiles\<close> and
  \<open>products\<close>, and the table of a run in which the landing, admin and collection prompts
  were skipped and the authentication views declined.\<close>

theorem route_table_order_witness:
  "map (\<lambda>r. (r_path r, r_name r, r_redirect r)) (generateRouter_routes full_answers) =
     [(''/'', Some ''Home'', None),
      (''/login'', Some ''Login'', None), (''/register'', Some ''Register'', None),
      (''/forgot-password'', Some ''ForgotPassword'', None),
      (''/reset-password'', Some ''ResetPassword'', None),
      (''/verify-email'', Some ''VerifyEmail'', None),
      (''/unauthorized'', Some ''Unauthorized'', None),
      (''/account'', Some ''Account'', None), (''/settings'', Some ''Settings'', None),
      (''/admin/dashboard'', Some ''AdminDashboard'', None),
      (''/admin/users'', Some ''AdminUsers'', None),
      (''/userProfiles/create'', Some ''UserProfilesCreate'', None),
      (''/userProfiles/edit/:id'', Some ''UserProfilesEdit'', None),
      (''/products/create'', Some ''ProductsCreate'', None),
      (''/products/edit/:id'', Some ''ProductsEdit'', None),
      (''/:pathMatch(.*)*'', None, Some ''/'')] \<and>
   r_component (hd (generateRouter_routes full_answers)) =
     Some (''() => import('' @ [CHR 0x27] @ ''@/views/LandingPage.vue'' @ [CHR 0x27] @ '')'') \<and>
   map (\<lambda>r. (r_path r, r_name r, r_redirect r)) (generateRouter_routes bare_answers) =
     [(''/'', Some ''Home'', None), (''/:pathMatch(.*)*'', None, Some ''/'')] \<and>
   r_component (hd (generateRouter_routes bare_answers)) =
     Some (''() => import('' @ [CHR 0x27] @ ''@/views/HomeView.vue'' @ [CHR 0x27] @ '')'')"
proof -
  have n: "toCamelCase ''user profiles'' = ''userProfiles''"
    "toPascalCase ''user profiles'' = ''UserProfiles''"
    "toCamelCase ''products'' = ''products''"
    "toPascalCase ''products'' = ''Products''"
    by code_simp+
  show ?thesis
    using route_table_order [of full_answers] route_table_order [of bare_answers]
    by (simp add: full_answers_def bare_answers_def n)
qed

section \<open>Properties of the store generator\<close>

lemma processCollection_throws:
  "lacks_name_or_fields c \<Longrightarrow> \<exists>e. processCollection sfy c = Inl e"
  by (simp add: processCollection_def)

lemma processCollection_returns:
  "\<not> lacks_name_or_fields c \<Longrightarrow> processCollection sfy c = Inr (normalized c)"
  by (simp add: processCollection_def)

lemma map_throwing_rejects:
  "list_ex lacks_name_or_fields cs \<Longrightarrow> \<exists>e. map_throwing (processCollection sfy) cs = Inl e"
proof (induction cs)
  case Nil
  then show ?case by simp
next
  case (Cons c cs)
  show ?case
  proof (cases "lacks_name_or_fields c")
    case True
    then obtain e where "processCollection sfy c = Inl e"
      using processCollection_throws by blast
    then show ?thesis by simp
  next
    case False
    then have "list_ex lacks_name_or_fields cs" using Cons.prems by simp
    then obtain e where "map_throwing (processCollection sfy) cs = Inl e" using Cons.IH by blast
    then show ?thesis using processCollection_returns[OF False] by simp
  qed
qed

lemma map_throwing_accepts:
  "\<not> list_ex lacks_name_or_fields cs \<Longrightarrow>
   map_throwing (processCollection sfy) cs = Inr (map normalized cs)"
  by (induction cs) (simp_all add: processCollection_returns)

lemma generateStore_rejects:
  assumes "list_ex lacks_name_or_fields cs"
  shows "\<exists>e. generateStore env sfy (options\<lparr>o_collections := Some cs\<rparr>) fs = (Some e, fs)"
proof -
  obtain e where e: "map_throwing (processCollection sfy) cs = Inl e"
    using map_throwing_rejects[OF assms] by blast
  have ne: "cs \<noteq> []" using assms by auto
  show ?thesis
    using e ne by (simp add: generateStore_def Let_def processCollections_def)
qed

text \<open>
  Claim C8 (normalisation of the collection list), as the code has it. In the store
  generator on collection objects: when an entry of the list has no name (missing or
  empty) or no field map, the normalisation throws, and so does \<open>generateStore\<close>, with
  the file system untouched; when every entry has both, the result is the list of the
  normalised entries whose camel-cased, trimmed name is not empty, in the order of the
  input, so no entry of the result has an empty name. An entry with an empty field map
  and a name is accepted; an entry without field map is not. The earlier store generator,
  on names, has no such check: it drops the names that are empty after camel-casing and
  trimming, and so never hands an empty name on.
\<close>

theorem normalization_rejects_and_drops:
  "(list_ex lacks_name_or_fields cs \<longrightarrow>
      (\<exists>e. processCollections sfy cs = Inl e) \<and>
      (\<exists>e. generateStore env sfy (options\<lparr>o_collections := Some cs\<rparr>) fs = (Some e, fs))) \<and>
   (\<not> list_ex lacks_name_or_fields cs \<longrightarrow>
      processCollections sfy cs = Inr (filter (\<lambda>p. c_name p \<noteq> []) (map normalized cs)) \<and>
      (\<forall>ps. processCollections sfy cs = Inr ps \<longrightarrow> (\<forall>p \<in> set ps. c_name p \<noteq> []))) \<and>
   \<not> lacks_name_or_fields \<lparr> rc_name = Some (ch # n), rc_fields = Some [], rc_dataType = d \<rparr> \<and>
   lacks_name_or_fields \<lparr> rc_name = nm, rc_fields = None, rc_dataType = d \<rparr> \<and>
   c_name (normalized c) = trim (toCamelCase (case rc_name c of None \<Rightarrow> [] | Some n \<Rightarrow> n)) \<and>
   (\<forall>n \<in> set (processNames names). n \<noteq> [])"
proof -
  have rej: "(\<exists>e. processCollections sfy cs = Inl e) \<and>
      (\<exists>e. generateStore env sfy (options\<lparr>o_collections := Some cs\<rparr>) fs = (Some e, fs))"
    if l: "list_ex lacks_name_or_fields cs"
  proof -
    obtain e where "map_throwing (processCollection sfy) cs = Inl e"
      using map_throwing_rejects[OF l] by blast
    then have "processCollections sfy cs = Inl e" by (simp add: processCollections_def)
    then show ?thesis using generateStore_rejects[OF l, of env sfy options fs] by blast
  qed
  have acc: "processCollections sfy cs = Inr (filter (\<lambda>p. c_name p \<noteq> []) (map normalized cs)) \<and>
      (\<forall>ps. processCollections sfy cs = Inr ps \<longrightarrow> (\<forall>p \<in> set ps. c_name p \<noteq> []))"
    if "\<not> list_ex lacks_name_or_fields cs"
    using map_throwing_accepts[OF that] by (auto simp: processCollections_def)
  have e1: "\<not> lacks_name_or_fields \<lparr> rc_name = Some (ch # n), rc_fields = Some [], rc_dataType = d \<rparr>"
    by (simp add: lacks_name_or_fields_def)
  have e2: "lacks_name_or_fields \<lparr> rc_name = nm, rc_fields = None, rc_dataType = d \<rparr>"
    by (simp add: lacks_name_or_fields_def)
  have nm: "c_name (normalized c) = trim (toCamelCase (case rc_name c of None \<Rightarrow> [] | Some n \<Rightarrow> n))"
    by (simp add: normalized_def)
  have names: "\<forall>n \<in> set (processNames names). n \<noteq> []" by (simp add: processNames_def)
  show ?thesis using rej acc e1 e2 nm names by blast
qed

theorem normalization_rejects_and_drops_witness:
  "list_ex lacks_name_or_fields broken_collections \<and>
   processCollections raw_json broken_collections =
     Inl (Error (''Collection '' @ [CHR 0x22] @ ''{}'' @ [CHR 0x22] @
                 '' is missing '' @ [CHR 0x27] @ ''name'' @ [CHR 0x27] @ '' or '' @
                 [CHR 0x27] @ ''fields'' @ [CHR 0x27] @
                 '' property. Each collection must have a name and define its fields.'')) \<and>
   (\<exists>e. generateStore recording_env raw_json
          \<lparr> storeName = None, o_collections = Some broken_collections, o_roles = None,
            addActivityLogging = None \<rparr> [] = (Some e, [])) \<and>
   \<not> list_ex lacks_name_or_fields sample_collections \<and>
   processCollections raw_json sample_collections =
     Inr [\<lparr> c_name = ''userProfiles'', c_fields = [], c_dataType = ''object'' \<rparr>] \<and>
   c_name (normalized \<lparr> rc_name = Some '' - '', rc_fields = Some [(''title'', ''string'')],
                        rc_dataType = None \<rparr>) = [] \<and>
   processNames [''Users'', '' _ '', ''blog posts''] = [''users'', ''blogPosts'']"
proof -
  have h1: "list_ex lacks_name_or_fields broken_collections" by code_simp
  have h2: "\<not> list_ex lacks_name_or_fields sample_collections" by code_simp
  have r1: "processCollections raw_json broken_collections =
     Inl (Error (''Collection '' @ [CHR 0x22] @ ''{}'' @ [CHR 0x22] @
                 '' is missing '' @ [CHR 0x27] @ ''name'' @ [CHR 0x27] @ '' or '' @
                 [CHR 0x27] @ ''fields'' @ [CHR 0x27] @
                 '' property. Each collection must have a name and define its fields.''))"
    by code_simp
  have r2: "processCollections raw_json sample_collections =
     Inr [\<lparr> c_name = ''userProfiles'', c_fields = [], c_dataType = ''object'' \<rparr>]" by code_simp
  have r3: "c_name (normalized \<lparr> rc_name = Some '' - '', rc_fields = Some [(''title'', ''string'')],
                        rc_dataType = None \<rparr>) = []" by code_simp
  have r4: "processNames [''Users'', '' _ '', ''blog posts''] = [''users'', ''blogPosts'']" by code_simp
  have "\<exists>e. generateStore recording_env raw_json
          (\<lparr> storeName = None, o_collections = None, o_roles = None,
            addActivityLogging = None \<rparr>\<lparr>o_collections := Some broken_collections\<rparr>) [] = (Some e, [])"
    using normalization_rejects_and_drops
      [of broken_collections raw_json recording_env
          "\<lparr> storeName = None, o_collections = None, o_roles = None, addActivityLogging = None \<rparr>" "[]"]
      h1 by blast
  then have r5: "\<exists>e. generateStore recording_env raw_json
          \<lparr> storeName = None, o_collections = Some broken_collections, o_roles = None,
            addActivityLogging = None \<rparr> [] = (Some e, [])" by simp
  show ?thesis using h1 h2 r1 r2 r3 r4 r5 by blast
qed

text \<open>
  The claim as the specification states it fails for the earlier store generator: an
  empty name in its list is dropped, nothing is thrown, and the store is generated for
  the names that remain.
\<close>

theorem names_not_rejected_counterexample:
  "processNames [''users'', []] = [''users''] \<and>
   generateStore_names recording_env
     \<lparr> n_storeName = None, n_collections = Some [''users'', []], n_roles = None,
       n_addActivityLogging = None \<rparr> [] =
     (None, [''mkdir src/stores/appStore/actions'', ''state'', ''firestore util'',
             ''action module'', ''index'', ''documentation''])"
  by code_simp

text \<open>
  Claim C10 (empty schema), as the code has it. When the collection list of the options
  is missing or empty, both versions of \<open>generateStore\<close> throw before any step touches the
  file system: the file system is returned as it was given. The error is
  \<open>At least one collection is required\<close>, unless the store name is the empty string: the
  check of the store name comes first, and the error is then \<open>Store name is required\<close>.
\<close>

theorem empty_schema_no_output:
  "(o_collections options = None \<or> o_collections options = Some [] \<longrightarrow>
      generateStore env sfy options fs =
        (Some (Error (if storeName options = Some [] then ''Store name is required''
                      else ''At least one collection is required'')), fs)) \<and>
   (n_collections noptions = None \<or> n_collections noptions = Some [] \<longrightarrow>
      generateStore_names nenv noptions nfs =
        (Some (Error (if n_storeName noptions = Some [] then ''Store name is required''
                      else ''At least one collection is required'')), nfs))"
  by (auto simp: generateStore_def generateStore_names_def Let_def split: option.splits)

theorem empty_schema_no_output_witness:
  "o_collections \<lparr> storeName = None, o_collections = Some [], o_roles = None,
                   addActivityLogging = None \<rparr> = Some [] \<and>
   generateStore recording_env raw_json
     \<lparr> storeName = None, o_collections = Some [], o_roles = None, addActivityLogging = None \<rparr> [] =
     (Some (Error ''At least one collection is required''), []) \<and>
   n_collections \<lparr> n_storeName = Some ''appStore'', n_collections = None, n_roles = None,
                   n_addActivityLogging = None \<rparr> = None \<and>
   generateStore_names recording_env
     \<lparr> n_storeName = Some ''appStore'', n_collections = None, n_roles = None,
       n_addActivityLogging = None \<rparr> [] =
     (Some (Error ''At least one collection is required''), []) \<and>
   generateStore recording_env raw_json
     \<lparr> storeName = None, o_collections = Some sample_collections, o_roles = None,
       addActivityLogging = None \<rparr> [] =
     (None, [''mkdir src/stores/appStore/actions'', ''state'', ''firestore util'',
             ''action module'', ''action module'', ''validator'', ''index'', ''documentation''])"
proof -
  have run: "generateStore recording_env raw_json
     \<lparr> storeName = None, o_collections = Some sample_collections, o_roles = None,
       addActivityLogging = None \<rparr> [] =
     (None, [''mkdir src/stores/appStore/actions'', ''state'', ''firestore util'',
             ''action module'', ''action module'', ''validator'', ''index'', ''documentation''])"
    by code_simp
  show ?thesis
    using run
      empty_schema_no_output
        [of "\<lparr> storeName = None, o_collections = Some [], o_roles = None, addActivityLogging = None \<rparr>"
            recording_env raw_json "[]"
            "\<lparr> n_storeName = Some ''appStore'', n_collections = None, n_roles = None,
               n_addActivityLogging = None \<rparr>"
            recording_env "[]"]
    by simp
qed

text \<open>
  The claim as the specification states it fails for an options object with the empty
  store name: the error thrown is the one about the store name.
\<close>

theorem empty_schema_error_counterexample:
  "generateStore recording_env raw_json
     \<lparr> storeName = Some [], o_collections = Some [], o_roles = None, addActivityLogging = None \<rparr> [] =
     (Some (Error ''Store name is required''), []) \<and>
   Error ''Store name is required'' \<noteq> Error ''At least one collection is required''"
  by code_simp

section \<open>Properties of the generated persistence module\<close>

text \<open>The advanced module parses exactly when no role is configured and activity logging
  is off; otherwise none of its operations exists.\<close>

lemma adv_module_parses_iff:
  "adv_module_parses roles activityLoggingEnabled \<longleftrightarrow> roles = [] \<and> \<not> activityLoggingEnabled"
  by (simp add: adv_module_parses_def roleCheck_def activityLoggingFunction_def)

lemma adv_module_unparsed:
  assumes "roles \<noteq> [] \<or> activityLoggingEnabled"
  shows "get_adv roles activityLoggingEnabled env db ident st = None"
    and "fetchInitialPage_adv roles activityLoggingEnabled env db options ast = None"
    and "fetchNextPage_adv roles activityLoggingEnabled env db ast = None"
  using assms
  by (auto simp: get_adv_def fetchInitialPage_adv_def fetchNextPage_adv_def adv_module_parses_iff)

text \<open>
  Claim C1 (get on a missing record), as the code has it. When the store answers that the
  snapshot does not exist, \<open>get\<close> of the advanced generator, in a module generated
  without roles and without activity logging, returns \<^verbatim>\<open>null\<close>, throws nothing and
  leaves the last-error slot alone, while \<open>get\<close> of the basic generator throws the error
  \<open>Document with ID  not found\<close> and records its message. When the store rejects the
  read, both throw the store's error and record its message; when the document exists,
  both return it with its id.
\<close>

theorem get_missing_record:
  "(getDoc env db ident = Inr None \<longrightarrow>
      get_adv [] False env db ident st = Some (Inr None, st) \<and>
      get_basic env db ident st' =
        (Inl (Error ''Document with ID  not found''),
         st'\<lparr> st_error := Some ''Document with ID  not found'' \<rparr>)) \<and>
   (getDoc env db ident = Inl e \<longrightarrow>
      get_adv [] False env db ident st = Some (Inl e, st\<lparr> st_error := Some (message e) \<rparr>) \<and>
      get_basic env db ident st' = (Inl e, st'\<lparr> st_error := Some (message e) \<rparr>)) \<and>
   (getDoc env db ident = Inr (Some d) \<longrightarrow>
      get_adv [] False env db ident st = Some (Inr (Some (ident, d)), st) \<and>
      get_basic env db ident st' = (Inr (ident, d), st'))"
  by (simp add: get_adv_def get_basic_def record_error_def adv_module_parses_iff)

theorem get_missing_record_witness:
  "getDoc list_store sample_users ''u9'' = Inr None \<and>
   get_adv [] False list_store sample_users ''u9'' fresh_state_adv =
     Some (Inr None, fresh_state_adv) \<and>
   get_basic list_store sample_users ''u9'' fresh_state_basic =
     (Inl (Error ''Document with ID  not found''),
      fresh_state_basic\<lparr> st_error := Some ''Document with ID  not found'' \<rparr>) \<and>
   getDoc list_store sample_users ''u2'' =
     Inr (Some \<lparr> d_roles = None, d_data = [(''name'', JStr ''Bob'')] \<rparr>) \<and>
   get_adv [] False list_store sample_users ''u2'' fresh_state_adv =
     Some (Inr (Some (''u2'', \<lparr> d_roles = None, d_data = [(''name'', JStr ''Bob'')] \<rparr>)),
           fresh_state_adv) \<and>
   getDoc offline_store sample_users ''u2'' = Inl (Error ''unavailable'') \<and>
   get_adv [] False offline_store sample_users ''u2'' fresh_state_adv =
     Some (Inl (Error ''unavailable''), fresh_state_adv\<lparr> st_error := Some ''unavailable'' \<rparr>) \<and>
   get_basic offline_store sample_users ''u2'' fresh_state_basic =
     (Inl (Error ''unavailable''), fresh_state_basic\<lparr> st_error := Some ''unavailable'' \<rparr>)"
proof -
  have h1: "getDoc list_store sample_users ''u9'' = Inr None"
    by (simp add: list_store_def sample_users_def)
  have h2: "getDoc list_store sample_users ''u2'' =
     Inr (Some \<lparr> d_roles = None, d_data = [(''name'', JStr ''Bob'')] \<rparr>)"
    by (simp add: list_store_def sample_users_def)
  have h3: "getDoc offline_store sample_users ''u2'' = Inl (Error ''unavailable'')"
    by (simp add: offline_store_def)
  show ?thesis
    using h1 h2 h3
      get_missing_record [of list_store sample_users "''u9''" fresh_state_adv fresh_state_basic]
      get_missing_record [of list_store sample_users "''u2''" fresh_state_adv fresh_state_basic]
      get_missing_record [of offline_store sample_users "''u2''" fresh_state_adv fresh_state_basic
                             "Error ''unavailable''"]
    by simp
qed

text \<open>
  The claim as the specification states it fails for the basic generator: its \<open>get\<close>
  throws on an id that has no record.
\<close>

theorem get_basic_throws_counterexample:
  "getDoc list_store sample_users ''u9'' = Inr None \<and>
   fst (get_basic list_store sample_users ''u9'' fresh_state_basic) =
     Inl (Error ''Document with ID  not found'') \<and>
   st_error (snd (get_basic list_store sample_users ''u9'' fresh_state_basic)) =
     Some ''Document with ID  not found''"
  by (simp add: get_basic_def list_store_def sample_users_def record_error_def)

text \<open>
  Claim C3 (hasMore by count). In the basic generator, and in the advanced generator for
  a module generated without roles and without activity logging, whenever
  \<open>fetchInitialPage\<close> or \<open>fetchNextPage\<close> gets documents from the store, the flag
  \<open>hasMore\<close> of the new state is true exactly when the number of documents returned
  equals the requested page size (the page size of the options, else that of the state,
  else, in the advanced generator, 10; for the next page, the page size of the state).
  Nothing else is asked of the store to set the flag, so a full last page sets it. Without
  a cursor, or when \<open>hasMore\<close> is false, \<open>fetchNextPage\<close> does nothing.
\<close>

theorem hasMore_by_count:
  "(getDocs env db (initial_constraints_basic options st) = Inr docs \<longrightarrow>
      cs_hasMore (st_coll (snd (fetchInitialPage_basic env db options st))) =
        (Some (length docs) = requested_pageSize_basic options st) \<and>
      cs_items (st_coll (snd (fetchInitialPage_basic env db options st))) = docs) \<and>
   (cs_lastVisible (st_coll st) \<noteq> None \<and> cs_hasMore (st_coll st) \<and>
    getDocs env db (next_constraints_basic st) = Inr docs \<longrightarrow>
      cs_hasMore (st_coll (snd (fetchNextPage_basic env db st))) =
        (Some (length docs) = cs_pageSize (st_coll st)) \<and>
      cs_items (st_coll (snd (fetchNextPage_basic env db st))) = cs_items (st_coll st) @ docs) \<and>
   (cs_lastVisible (st_coll st) = None \<or> cs_hasMore (st_coll st) = False \<longrightarrow>
      fetchNextPage_basic env db st = (None, st)) \<and>
   (initial_constraints_adv aoptions ast = Inr q \<and> getDocs env db q = Inr docs \<longrightarrow>
      map_option (\<lambda>r. cs_hasMore (st_coll (snd r)))
          (fetchInitialPage_adv [] False env db aoptions ast) =
        Some (Some (length docs) = requested_pageSize_adv aoptions ast) \<and>
      map_option (\<lambda>r. cs_items (st_coll (snd r)))
          (fetchInitialPage_adv [] False env db aoptions ast) = Some docs) \<and>
   (cs_lastVisible (st_coll ast) \<noteq> None \<and> cs_hasMore (st_coll ast) \<and>
    next_constraints_adv ast = Inr q \<and> getDocs env db q = Inr docs \<longrightarrow>
      map_option (\<lambda>r. cs_hasMore (st_coll (snd r))) (fetchNextPage_adv [] False env db ast) =
        Some (Some (length docs) = cs_pageSize (st_coll ast)) \<and>
      map_option (\<lambda>r. cs_items (st_coll (snd r))) (fetchNextPage_adv [] False env db ast) =
        Some (cs_items (st_coll ast) @ docs)) \<and>
   (cs_lastVisible (st_coll ast) = None \<or> cs_hasMore (st_coll ast) = False \<longrightarrow>
      fetchNextPage_adv [] False env db ast = Some (None, ast))"
proof -
  have p: "adv_module_parses [] False" by (simp add: adv_module_parses_iff)
  have a: "cs_hasMore (st_coll (snd (fetchInitialPage_basic env db options st))) =
        (Some (length docs) = requested_pageSize_basic options st) \<and>
      cs_items (st_coll (snd (fetchInitialPage_basic env db options st))) = docs"
    if "getDocs env db (initial_constraints_basic options st) = Inr docs"
    using that by (simp add: fetchInitialPage_basic_def Let_def record_error_def split: sum.splits)
  have b: "cs_hasMore (st_coll (snd (fetchNextPage_basic env db st))) =
        (Some (length docs) = cs_pageSize (st_coll st)) \<and>
      cs_items (st_coll (snd (fetchNextPage_basic env db st))) = cs_items (st_coll st) @ docs"
    if "cs_lastVisible (st_coll st) \<noteq> None \<and> cs_hasMore (st_coll st) \<and>
        getDocs env db (next_constraints_basic st) = Inr docs"
    using that by (auto simp: fetchNextPage_basic_def Let_def)
  have c: "fetchNextPage_basic env db st = (None, st)"
    if "cs_lastVisible (st_coll st) = None \<or> cs_hasMore (st_coll st) = False"
    using that by (auto simp: fetchNextPage_basic_def)
  have d: "map_option (\<lambda>r. cs_hasMore (st_coll (snd r)))
          (fetchInitialPage_adv [] False env db aoptions ast) =
        Some (Some (length docs) = requested_pageSize_adv aoptions ast) \<and>
      map_option (\<lambda>r. cs_items (st_coll (snd r)))
          (fetchInitialPage_adv [] False env db aoptions ast) = Some docs"
    if "initial_constraints_adv aoptions ast = Inr q \<and> getDocs env db q = Inr docs"
    using that p
    by (simp add: fetchInitialPage_adv_def Let_def record_error_def split: sum.splits)
  have e: "map_option (\<lambda>r. cs_hasMore (st_coll (snd r))) (fetchNextPage_adv [] False env db ast) =
        Some (Some (length docs) = cs_pageSize (st_coll ast)) \<and>
      map_option (\<lambda>r. cs_items (st_coll (snd r))) (fetchNextPage_adv [] False env db ast) =
        Some (cs_items (st_coll ast) @ docs)"
    if "cs_lastVisible (st_coll ast) \<noteq> None \<and> cs_hasMore (st_coll ast) \<and>
        next_constraints_adv ast = Inr q \<and> getDocs env db q = Inr docs"
    using that p by (auto simp: fetchNextPage_adv_def Let_def)
  have f: "fetchNextPage_adv [] False env db ast = Some (None, ast)"
    if "cs_lastVisible (st_coll ast) = None \<or> cs_hasMore (st_coll ast) = False"
    using that p by (auto simp: fetchNextPage_adv_def)
  show ?thesis using a b c d e f by blast
qed

theorem hasMore_by_count_witness:
  "getDocs list_store sample_users (initial_constraints_basic page_of_two_basic fresh_state_basic) =
     Inr sample_users \<and>
   length sample_users = 2 \<and>
   requested_pageSize_basic page_of_two_basic fresh_state_basic = Some 2 \<and>
   cs_hasMore (st_coll (snd (fetchInitialPage_basic list_store sample_users page_of_two_basic
                               fresh_state_basic))) \<and>
   getDocs list_store sample_users
     (next_constraints_basic (snd (fetchInitialPage_basic list_store sample_users page_of_two_basic
                                     fresh_state_basic))) = Inr [] \<and>
   \<not> cs_hasMore (st_coll (snd (fetchNextPage_basic list_store sample_users
        (snd (fetchInitialPage_basic list_store sample_users page_of_two_basic fresh_state_basic))))) \<and>
   initial_constraints_adv page_of_two_adv fresh_state_adv = Inr [Limit (Some 2)] \<and>
   getDocs list_store sample_users [Limit (Some 2)] = Inr sample_users \<and>
   requested_pageSize_adv page_of_two_adv fresh_state_adv = Some 2 \<and>
   map_option (\<lambda>r. cs_hasMore (st_coll (snd r)))
     (fetchInitialPage_adv [] False list_store sample_users page_of_two_adv fresh_state_adv) =
     Some True \<and>
   cs_lastVisible (st_coll fresh_state_basic) = None \<and>
   fetchNextPage_basic list_store sample_users fresh_state_basic = (None, fresh_state_basic) \<and>
   cs_lastVisible (st_coll fresh_state_adv) = None \<and>
   fetchNextPage_adv [] False list_store sample_users fresh_state_adv = Some (None, fresh_state_adv)"
proof -
  let ?st1 = "snd (fetchInitialPage_basic list_store sample_users page_of_two_basic fresh_state_basic)"
  have h1: "getDocs list_store sample_users
              (initial_constraints_basic page_of_two_basic fresh_state_basic) = Inr sample_users"
    by code_simp
  have n: "length sample_users = 2" by code_simp
  have p: "requested_pageSize_basic page_of_two_basic fresh_state_basic = Some 2" by code_simp
  have h2: "cs_lastVisible (st_coll ?st1) \<noteq> None" by code_simp
  have h3: "getDocs list_store sample_users (next_constraints_basic ?st1) = Inr []" by code_simp
  have p2: "cs_pageSize (st_coll ?st1) = Some 2" by code_simp
  have h4: "initial_constraints_adv page_of_two_adv fresh_state_adv = Inr [Limit (Some 2)]" by code_simp
  have h5: "getDocs list_store sample_users [Limit (Some 2)] = Inr sample_users" by code_simp
  have p3: "requested_pageSize_adv page_of_two_adv fresh_state_adv = Some 2" by code_simp
  have first: "cs_hasMore (st_coll ?st1)"
    using hasMore_by_count [where env = list_store and db = sample_users and docs = sample_users
        and options = page_of_two_basic and st = fresh_state_basic] h1 n p
    by simp
  have second: "\<not> cs_hasMore (st_coll (snd (fetchNextPage_basic list_store sample_users ?st1)))"
    using hasMore_by_count [where env = list_store and db = sample_users and docs = "[]"
        and st = ?st1] h2 h3 p2 first
    by simp
  have third: "map_option (\<lambda>r. cs_hasMore (st_coll (snd r)))
     (fetchInitialPage_adv [] False list_store sample_users page_of_two_adv fresh_state_adv) =
     Some True"
    using hasMore_by_count [where env = list_store and db = sample_users and docs = sample_users
        and aoptions = page_of_two_adv and ast = fresh_state_adv and q = "[Limit (Some 2)]"]
      h4 h5 n p3
    by simp
  have h6: "cs_lastVisible (st_coll fresh_state_basic) = None" by code_simp
  have fourth: "fetchNextPage_basic list_store sample_users fresh_state_basic = (None, fresh_state_basic)"
    using hasMore_by_count [where env = list_store and db = sample_users and st = fresh_state_basic] h6
    by simp
  have h7: "cs_lastVisible (st_coll fresh_state_adv) = None" by code_simp
  have fifth: "fetchNextPage_adv [] False list_store sample_users fresh_state_adv =
                 Some (None, fresh_state_adv)"
    using hasMore_by_count [where env = list_store and db = sample_users and ast = fresh_state_adv] h7
    by simp
  show ?thesis using h1 n p first h3 second h4 h5 p3 third h6 fourth h7 fifth by simp
qed

text \<open>The role actions of the basic generator. They are part of the returned object only
  when roles are configured and the collection name is among the authentication
  collections the generator was given; both call \<open>_checkRole\<close> for the admin role first
  and throw without reading or writing when it fails; \<open>revokeRoles\<close> writes the stored
  roles without the given ones, and \<open>assignRoles\<close> writes the given roles.\<close>

lemma checkRole_basic_passes:
  "checkRole_basic st r = None \<longleftrightarrow>
   (\<exists>u rs. st_currentUser st = Some u \<and> u_roles u = Some rs \<and> r \<in> set rs)"
  by (auto simp: checkRole_basic_def split: option.splits)

lemma role_actions_emitted:
  assumes "has_role_actions roles authCollections collectionName"
  shows "roles \<noteq> []" and "AuthName collectionName \<in> set authCollections"
    and "\<not> adv_module_parses roles activityLoggingEnabled"
  using assms by (auto simp: has_role_actions_def adv_module_parses_iff)

lemma role_actions_basic_denied:
  assumes "checkRole_basic st ''admin'' = Some e"
  shows "assignRoles_basic env db userId arg st = (Some e, record_error e st, db)"
    and "revokeRoles_basic env db userId given st = (Some e, record_error e st, db)"
  using assms by (simp_all add: assignRoles_basic_def revokeRoles_basic_def)

lemma revokeRoles_basic_difference:
  assumes "checkRole_basic st ''admin'' = None" and "getDoc env db userId = Inr (Some userDoc)"
  shows "\<exists>newRoles. set newRoles = set (currentRoles userDoc) - set given \<and>
           revokeRoles_basic env db userId given st =
             (case updateDoc_roles env db userId newRoles of
                Inl error \<Rightarrow> (Some error, record_error error st, db)
              | Inr db' \<Rightarrow> (None, st, db'))"
proof -
  let ?d = "filter (\<lambda>role. role \<notin> set given) (currentRoles userDoc)"
  have "set ?d = set (currentRoles userDoc) - set given" by auto
  moreover have "revokeRoles_basic env db userId given st =
         (case updateDoc_roles env db userId ?d of
            Inl error \<Rightarrow> (Some error, record_error error st, db)
          | Inr db' \<Rightarrow> (None, st, db'))"
    using assms by (simp add: revokeRoles_basic_def Let_def split: sum.splits)
  ultimately show ?thesis by blast
qed

lemma assignRoles_basic_overwrites:
  assumes "checkRole_basic st ''admin'' = None"
  shows "assignRoles_basic env db userId arg st =
           (case updateDoc_roles env db userId (as_array arg) of
              Inl error \<Rightarrow> (Some error, record_error error st, db)
            | Inr db' \<Rightarrow> (None, st, db'))"
  using assms by (simp add: assignRoles_basic_def split: sum.splits)

text \<open>
  Claim C2 (role actions): the code does not do this. With the roles admin and user
  configured and the collection \<open>users\<close>, for which the actions are emitted, the advanced
  generator builds the method definition \<open>_checkRole\<close> and splices it into the body of the
  factory: its module does not parse, and there is no \<open>assignRoles\<close> to compute the union
  that its text spells out. In the module of the basic generator, an admin who assigns
  the role admin to a user with the role user leaves that user with the role admin alone,
  where the union is user and admin; \<open>revokeRoles\<close> of the basic generator writes the
  difference.
\<close>

theorem assignRoles_no_union:
  "has_role_actions [''admin'', ''user'']
     (map AuthName (filter isAuthCollection_name (processNames [''Users'', ''products'']))) ''users'' \<and>
   roleCheck [''admin'', ''user''] = MethodDefinition \<and>
   adv_module_parses [''admin'', ''user''] False = False \<and>
   checkRole_basic fresh_state_basic ''admin'' = None \<and>
   map_of sample_users ''u1'' =
     Some \<lparr> d_roles = Some [''user''], d_data = [(''name'', JStr ''Ann'')] \<rparr> \<and>
   assignRoles_basic list_store sample_users ''u1'' (RoleArray [''admin'']) fresh_state_basic =
     (None, fresh_state_basic,
      [(''u1'', \<lparr> d_roles = Some [''admin''], d_data = [(''name'', JStr ''Ann'')] \<rparr>),
       (''u2'', \<lparr> d_roles = None, d_data = [(''name'', JStr ''Bob'')] \<rparr>)]) \<and>
   revokeRoles_basic list_store sample_users ''u1'' [''user''] fresh_state_basic =
     (None, fresh_state_basic,
      [(''u1'', \<lparr> d_roles = Some [], d_data = [(''name'', JStr ''Ann'')] \<rparr>),
       (''u2'', \<lparr> d_roles = None, d_data = [(''name'', JStr ''Bob'')] \<rparr>)])"
  by code_simp

end
